theory Spec2Isabelle
  imports Complex_Main "HOL-Library.Sublist"
begin

section \<open>JavaScript numbers\<close>

text \<open>
  A JavaScript number is an IEEE 754 binary64 value. A finite one is carried by the
  rational it denotes; the arithmetic operators compute the exact rational result and
  round it to the nearest binary64 value, ties to even (\<open>fl\<close>). The negative zero is
  identified with zero: the two are equal for \<open>===\<close>, \<open>>\<close> and \<open>>=\<close>, and differ in
  this program only in what \<open>toLocaleString\<close> prints, \<open>-0.00\<close> for the negative zero
  (which \<open>parseFloat\<close> gives for the text \<open>-0\<close>) where the model has \<open>0.00\<close>. The
  program prints a zero in an alert only under a negative threshold.
\<close>

datatype jsnum = NaN | PosInf | NegInf | Fin rat

definition pow2 :: "int \<Rightarrow> rat" where
  "pow2 e = (if 0 \<le> e then 2 ^ nat e else 1 / 2 ^ nat (- e))"

definition pow10 :: "int \<Rightarrow> rat" where
  "pow10 e = (if 0 \<le> e then 10 ^ nat e else 1 / 10 ^ nat (- e))"

text \<open>
  \<open>ilog b x\<close> is the exponent \<open>e\<close> with \<open>b ^ e \<le> x < b ^ (e + 1)\<close>, for \<open>0 < x\<close>:
  counted by dividing down to below \<open>b\<close> when \<open>1 \<le> x\<close>, by multiplying up to \<open>1\<close>
  otherwise.
\<close>

function log_up :: "int \<Rightarrow> rat \<Rightarrow> int" where
  "log_up b x = (if 2 \<le> b \<and> of_int b \<le> x then log_up b (x / of_int b) + 1 else 0)"
  by pat_completeness auto
termination
proof (relation "measure (\<lambda>(b, x). nat \<lfloor>x\<rfloor>)")
  show "wf (measure (\<lambda>(b, x). nat \<lfloor>x\<rfloor>))" by simp
next
  fix b :: int and x :: rat
  assume a: "2 \<le> b \<and> of_int b \<le> x"
  then have b2: "(2::rat) \<le> of_int b" by linarith
  with a have x2: "2 \<le> x" by linarith
  have "x / of_int b \<le> x / 2"
    using b2 x2 by (intro divide_left_mono) auto
  also have "\<dots> \<le> x - 1" using x2 by simp
  finally have "\<lfloor>x / of_int b\<rfloor> \<le> \<lfloor>x - 1\<rfloor>" by (rule floor_mono)
  then have "\<lfloor>x / of_int b\<rfloor> < \<lfloor>x\<rfloor>" by simp
  moreover have "0 < \<lfloor>x\<rfloor>" using x2 by (simp add: floor_less_iff less_floor_iff)
  ultimately show "((b, x / of_int b), (b, x)) \<in> measure (\<lambda>(b, x). nat \<lfloor>x\<rfloor>)"
    by simp
qed

function log_down :: "int \<Rightarrow> rat \<Rightarrow> int" where
  "log_down b x = (if 2 \<le> b \<and> 0 < x \<and> x < 1 then log_down b (x * of_int b) - 1 else 0)"
  by pat_completeness auto
termination
proof (relation "measure (\<lambda>(b, x). nat \<lceil>1 / x\<rceil>)")
  show "wf (measure (\<lambda>(b, x). nat \<lceil>1 / x\<rceil>))" by simp
next
  fix b :: int and x :: rat
  assume a: "2 \<le> b \<and> 0 < x \<and> x < 1"
  then have b2: "(2::rat) \<le> of_int b" by linarith
  define y where "y = 1 / x"
  have y1: "1 < y" using a by (simp add: y_def)
  have c2: "2 \<le> \<lceil>y\<rceil>" using y1 by (simp add: less_ceiling_iff)
  have "1 / (x * of_int b) = y / of_int b" by (simp add: y_def)
  also have "\<dots> \<le> y / 2"
    using b2 y1 by (intro divide_left_mono) auto
  also have "\<dots> \<le> of_int \<lceil>y\<rceil> / 2" by (simp add: divide_right_mono)
  also have "\<dots> \<le> of_int (\<lceil>y\<rceil> - 1)" using c2 by simp
  finally have "\<lceil>1 / (x * of_int b)\<rceil> \<le> \<lceil>y\<rceil> - 1" by (rule ceiling_le)
  then show "((b, x * of_int b), (b, x)) \<in> measure (\<lambda>(b, x). nat \<lceil>1 / x\<rceil>)"
    using c2 a by (simp add: y_def)
qed

declare log_up.simps [simp del] log_down.simps [simp del]

definition ilog :: "int \<Rightarrow> rat \<Rightarrow> int" where
  "ilog b x = (if 1 \<le> x then log_up b x else log_down b x)"

definition round_half_even :: "rat \<Rightarrow> int" where
  "round_half_even m =
     (if m - of_int \<lfloor>m\<rfloor> < 1 / 2 then \<lfloor>m\<rfloor>
      else if 1 / 2 < m - of_int \<lfloor>m\<rfloor> then \<lfloor>m\<rfloor> + 1
      else if even \<lfloor>m\<rfloor> then \<lfloor>m\<rfloor> else \<lfloor>m\<rfloor> + 1)"

text \<open>
  Rounding a positive rational to binary64: 53 significant bits, the exponent not below
  that of the subnormal numbers, and infinity from \<open>2 ^ 1024\<close> on. \<open>ulp x\<close> is the
  distance between the binary64 values around \<open>x\<close>.
\<close>

definition ulp :: "rat \<Rightarrow> rat" where
  "ulp x = pow2 (max (ilog 2 x) (- 1022) - 52)"

definition nearest_multiple :: "rat \<Rightarrow> rat \<Rightarrow> rat" where
  "nearest_multiple u x = of_int (round_half_even (x / u)) * u"

definition overflow :: "rat \<Rightarrow> jsnum" where
  "overflow r = (if 2 ^ 1024 \<le> r then PosInf else Fin r)"

definition fl_pos :: "rat \<Rightarrow> jsnum" where
  "fl_pos x = overflow (nearest_multiple (ulp x) x)"

definition js_neg :: "jsnum \<Rightarrow> jsnum" where
  "js_neg a = (case a of NaN \<Rightarrow> NaN | PosInf \<Rightarrow> NegInf | NegInf \<Rightarrow> PosInf
               | Fin x \<Rightarrow> Fin (- x))"

definition fl :: "rat \<Rightarrow> jsnum" where
  "fl x = (if x = 0 then Fin 0 else if 0 < x then fl_pos x else js_neg (fl_pos (- x)))"

text \<open>The operators \<open>>\<close>, \<open>>=\<close>, \<open>!==\<close>, \<open>*\<close>, \<open>/\<close> on numbers, and \<open>isNaN\<close>.\<close>

definition js_gt :: "jsnum \<Rightarrow> jsnum \<Rightarrow> bool" where
  "js_gt a b = (case (a, b) of
      (NaN, _) \<Rightarrow> False | (_, NaN) \<Rightarrow> False
    | (PosInf, PosInf) \<Rightarrow> False | (PosInf, _) \<Rightarrow> True
    | (NegInf, _) \<Rightarrow> False
    | (Fin x, PosInf) \<Rightarrow> False | (Fin x, NegInf) \<Rightarrow> True
    | (Fin x, Fin y) \<Rightarrow> y < x)"

definition js_ge :: "jsnum \<Rightarrow> jsnum \<Rightarrow> bool" where
  "js_ge a b = (case (a, b) of
      (NaN, _) \<Rightarrow> False | (_, NaN) \<Rightarrow> False
    | (PosInf, _) \<Rightarrow> True
    | (NegInf, NegInf) \<Rightarrow> True | (NegInf, _) \<Rightarrow> False
    | (Fin x, PosInf) \<Rightarrow> False | (Fin x, NegInf) \<Rightarrow> True
    | (Fin x, Fin y) \<Rightarrow> y \<le> x)"

definition js_strict_neq :: "jsnum \<Rightarrow> jsnum \<Rightarrow> bool" where
  "js_strict_neq a b = (a = NaN \<or> b = NaN \<or> a \<noteq> b)"

definition isNaN :: "jsnum \<Rightarrow> bool" where
  "isNaN a = (a = NaN)"

definition js_mul :: "jsnum \<Rightarrow> jsnum \<Rightarrow> jsnum" where
  "js_mul a b = (case (a, b) of
      (NaN, _) \<Rightarrow> NaN | (_, NaN) \<Rightarrow> NaN
    | (Fin x, Fin y) \<Rightarrow> fl (x * y)
    | (Fin x, PosInf) \<Rightarrow> (if x = 0 then NaN else if 0 < x then PosInf else NegInf)
    | (Fin x, NegInf) \<Rightarrow> (if x = 0 then NaN else if 0 < x then NegInf else PosInf)
    | (PosInf, Fin y) \<Rightarrow> (if y = 0 then NaN else if 0 < y then PosInf else NegInf)
    | (NegInf, Fin y) \<Rightarrow> (if y = 0 then NaN else if 0 < y then NegInf else PosInf)
    | (PosInf, PosInf) \<Rightarrow> PosInf | (NegInf, NegInf) \<Rightarrow> PosInf
    | (PosInf, NegInf) \<Rightarrow> NegInf | (NegInf, PosInf) \<Rightarrow> NegInf)"

definition js_div :: "jsnum \<Rightarrow> jsnum \<Rightarrow> jsnum" where
  "js_div a b = (case (a, b) of
      (NaN, _) \<Rightarrow> NaN | (_, NaN) \<Rightarrow> NaN
    | (Fin x, Fin y) \<Rightarrow>
        (if y = 0 then (if x = 0 then NaN else if 0 < x then PosInf else NegInf)
         else fl (x / y))
    | (Fin x, _) \<Rightarrow> Fin 0
    | (PosInf, Fin y) \<Rightarrow> (if 0 \<le> y then PosInf else NegInf)
    | (NegInf, Fin y) \<Rightarrow> (if 0 \<le> y then NegInf else PosInf)
    | (_, _) \<Rightarrow> NaN)"

definition Math_floor :: "jsnum \<Rightarrow> jsnum" where
  "Math_floor a = (case a of Fin x \<Rightarrow> Fin (of_int \<lfloor>x\<rfloor>) | _ \<Rightarrow> a)"

text \<open>\<open>Math.pow(10, d)\<close> for a natural number \<open>d\<close>, the only use the program makes of it.\<close>

definition Math_pow10 :: "nat \<Rightarrow> jsnum" where
  "Math_pow10 d = fl (10 ^ d)"

section \<open>Numbers as text\<close>

definition digit_char :: "nat \<Rightarrow> char" where
  "digit_char d = ''0123456789'' ! d"

fun string_of_nat :: "nat \<Rightarrow> string" where
  "string_of_nat n = (if n < 10 then [digit_char n]
                      else string_of_nat (n div 10) @ [digit_char (n mod 10)])"

declare string_of_nat.simps [simp del]

text \<open>
  \<open>Number.prototype.toString\<close> prints the shortest decimal that reads back as the same
  number: integers \<open>s\<close>, \<open>n\<close>, \<open>k\<close> with \<open>k\<close> digits in \<open>s\<close>, the value
  \<open>s * 10 ^ (n - k)\<close> rounding to \<open>x\<close>, and \<open>k\<close> as small as possible; of two such \<open>s\<close>
  the one nearer to \<open>x\<close>. Seventeen digits are enough for every binary64 value.
\<close>

definition digits_ok :: "rat \<Rightarrow> int \<Rightarrow> nat \<Rightarrow> int \<Rightarrow> bool" where
  "digits_ok x n k s =
     (if 10 ^ (k - 1) \<le> s \<and> s < 10 ^ k
      then fl (of_int s * pow10 (n - int k)) = Fin x else False)"

definition nearer_above :: "rat \<Rightarrow> bool" where
  "nearer_above q =
     (of_int \<lceil>q\<rceil> - q < q - of_int \<lfloor>q\<rfloor> \<or>
      (of_int \<lceil>q\<rceil> - q = q - of_int \<lfloor>q\<rfloor> \<and> even \<lceil>q\<rceil>))"

definition choose_digits :: "rat \<Rightarrow> int \<Rightarrow> nat \<Rightarrow> rat \<Rightarrow> int option" where
  "choose_digits x n k q =
     (if digits_ok x n k \<lfloor>q\<rfloor>
      then (if digits_ok x n k \<lceil>q\<rceil> \<and> nearer_above q then Some \<lceil>q\<rceil> else Some \<lfloor>q\<rfloor>)
      else if digits_ok x n k \<lceil>q\<rceil> then Some \<lceil>q\<rceil> else None)"

definition pick_digits :: "rat \<Rightarrow> int \<Rightarrow> nat \<Rightarrow> int option" where
  "pick_digits x n k = choose_digits x n k (x / pow10 (n - int k))"

fun find_digits :: "rat \<Rightarrow> int \<Rightarrow> nat list \<Rightarrow> (int \<times> int \<times> nat) option" where
  "find_digits x n0 [] = None"
| "find_digits x n0 (k # ks) =
     (case pick_digits x n0 k of
        Some s \<Rightarrow> Some (s, n0, k)
      | None \<Rightarrow>
         (case pick_digits x (n0 + 1) k of
            Some s \<Rightarrow> Some (s, n0 + 1, k)
          | None \<Rightarrow> find_digits x n0 ks))"

definition shortest_digits :: "rat \<Rightarrow> (int \<times> int \<times> nat) option" where
  "shortest_digits x =
     find_digits x (ilog 10 x + 1)
       [1, 2, 3, 4, 5, 6, 7, 8, 9, 10, 11, 12, 13, 14, 15, 16, 17]"

definition place_digits :: "string \<Rightarrow> int \<Rightarrow> nat \<Rightarrow> string" where
  "place_digits ds n k =
     (if int k \<le> n \<and> n \<le> 21 then ds @ replicate (nat (n - int k)) CHR ''0''
      else if 0 < n \<and> n \<le> 21 then take (nat n) ds @ ''.'' @ drop (nat n) ds
      else if - 6 < n \<and> n \<le> 0 then ''0.'' @ replicate (nat (- n)) CHR ''0'' @ ds
      else (if k = 1 then ds else take 1 ds @ ''.'' @ drop 1 ds) @ ''e'' @
           (if 0 \<le> n - 1 then ''+'' else ''-'') @ string_of_nat (nat \<bar>n - 1\<bar>))"

definition render_digits :: "int \<Rightarrow> int \<Rightarrow> nat \<Rightarrow> string" where
  "render_digits s n k = place_digits (string_of_nat (nat s)) n k"

text \<open>A rational that is no binary64 value has no such digits; it prints as nothing.\<close>

definition toString_pos :: "rat \<Rightarrow> string" where
  "toString_pos x = (case shortest_digits x of
       Some (s, n, k) \<Rightarrow> render_digits s n k | None \<Rightarrow> [])"

definition Number_toString :: "jsnum \<Rightarrow> string" where
  "Number_toString a = (case a of
      NaN \<Rightarrow> ''NaN'' | PosInf \<Rightarrow> ''Infinity'' | NegInf \<Rightarrow> ''-Infinity''
    | Fin x \<Rightarrow> (if x = 0 then ''0'' else if x < 0 then ''-'' @ toString_pos (- x)
                else toString_pos x))"

text \<open>
  \<open>toLocaleString('en-US', {minimumFractionDigits: 2, maximumFractionDigits: 2})\<close>:
  the decimal digits of the number, rounded to two fraction digits with halves away
  from zero, the integer part in groups of three separated by commas. The formatter of
  the runtime rounds the shortest decimal of the number. The infinity sign is the three
  bytes of its UTF-8 encoding.
\<close>

definition shortest_decimal :: "rat \<Rightarrow> rat" where
  "shortest_decimal x = (case shortest_digits x of
       Some (s, n, k) \<Rightarrow> of_int s * pow10 (n - int k) | None \<Rightarrow> x)"

fun group3 :: "string \<Rightarrow> string" where
  "group3 (a # b # c # d # r) = a # b # c # CHR '','' # group3 (d # r)"
| "group3 r = r"

definition with_commas :: "nat \<Rightarrow> string" where
  "with_commas n = rev (group3 (rev (string_of_nat n)))"

definition hundredths :: "nat \<Rightarrow> string" where
  "hundredths h =
     with_commas (h div 100) @ ''.'' @ [digit_char (h mod 100 div 10), digit_char (h mod 10)]"

definition fixed2 :: "rat \<Rightarrow> string" where
  "fixed2 d = hundredths (nat \<lfloor>d * 100 + 1 / 2\<rfloor>)"

definition infinity_sign :: string where
  "infinity_sign = [CHR 0xE2, CHR 0x88, CHR 0x9E]"

definition toLocaleString2 :: "jsnum \<Rightarrow> string" where
  "toLocaleString2 a = (case a of
      NaN \<Rightarrow> ''NaN'' | PosInf \<Rightarrow> infinity_sign | NegInf \<Rightarrow> ''-'' @ infinity_sign
    | Fin x \<Rightarrow> (if x = 0 then ''0.00''
                else if x < 0 then ''-'' @ fixed2 (shortest_decimal (- x))
                else fixed2 (shortest_decimal x)))"

section \<open>The formatting functions of server.js\<close>

definition formatWithCommasAndDot :: "jsnum \<Rightarrow> string" where
  "formatWithCommasAndDot v = toLocaleString2 v"

definition truncToDecimals :: "jsnum \<Rightarrow> nat \<Rightarrow> jsnum" where
  "truncToDecimals num decimals =
     (let factor = Math_pow10 decimals
      in js_div (Math_floor (js_mul num factor)) factor)"

definition formatShortValue :: "jsnum \<Rightarrow> string" where
  "formatShortValue v =
     (if js_ge v (Fin 1000000) then
        (let millions = js_div v (Fin 1000000);
             truncated = truncToDecimals millions 2
         in Number_toString truncated @ ''M'')
      else if js_ge v (Fin 1000) then
        (let thousands = js_div v (Fin 1000);
             truncated = Math_floor thousands
         in Number_toString truncated @ ''K'')
      else toLocaleString2 v)"

section \<open>Reading numbers: parseFloat\<close>

text \<open>
  \<open>parseFloat\<close> turns its argument into a string, skips leading white space, takes an
  optional sign and then the longest prefix that is \<open>Infinity\<close> or a decimal literal
  (digits, an optional fraction, an optional exponent that has at least one digit), and
  rounds the decimal to binary64; with no such prefix the result is \<open>NaN\<close>. A string
  is carried by its UTF-8 bytes. The white space that is skipped is that of the
  language: TAB, LF, VT, FF, CR and the space, which are one byte each (\<open>is_ws\<close>), and
  U+00A0, U+1680, U+2000 to U+200A, U+2028, U+2029, U+202F, U+205F, U+3000 and U+FEFF,
  which are two or three bytes (\<open>wide_ws\<close>).
\<close>

datatype jsval = Undefined | Str string | Num jsnum

definition is_ws :: "char \<Rightarrow> bool" where
  "is_ws c = (c \<in> set [CHR 0x09, CHR 0x0A, CHR 0x0B, CHR 0x0C, CHR 0x0D, CHR 0x20])"

definition wide_ws :: "string list" where
  "wide_ws =
      [[CHR 0xC2, CHR 0xA0], [CHR 0xE1, CHR 0x9A, CHR 0x80], [CHR 0xE2, CHR 0x80, CHR 0x80],
       [CHR 0xE2, CHR 0x80, CHR 0x81], [CHR 0xE2, CHR 0x80, CHR 0x82],
       [CHR 0xE2, CHR 0x80, CHR 0x83], [CHR 0xE2, CHR 0x80, CHR 0x84],
       [CHR 0xE2, CHR 0x80, CHR 0x85], [CHR 0xE2, CHR 0x80, CHR 0x86],
       [CHR 0xE2, CHR 0x80, CHR 0x87], [CHR 0xE2, CHR 0x80, CHR 0x88],
       [CHR 0xE2, CHR 0x80, CHR 0x89], [CHR 0xE2, CHR 0x80, CHR 0x8A],
       [CHR 0xE2, CHR 0x80, CHR 0xA8], [CHR 0xE2, CHR 0x80, CHR 0xA9],
       [CHR 0xE2, CHR 0x80, CHR 0xAF], [CHR 0xE2, CHR 0x81, CHR 0x9F],
       [CHR 0xE3, CHR 0x80, CHR 0x80], [CHR 0xEF, CHR 0xBB, CHR 0xBF]]"

fun skip_ws :: "string \<Rightarrow> string" where
  "skip_ws [] = []"
| "skip_ws (c # r) =
     (if is_ws c then skip_ws r
      else (case find (\<lambda>w. prefix w (c # r)) wide_ws of
              None \<Rightarrow> c # r
            | Some w \<Rightarrow> skip_ws (drop (length w - 1) r)))"

definition is_digit :: "char \<Rightarrow> bool" where
  "is_digit c = (c \<in> set ''0123456789'')"

definition digit_val :: "char \<Rightarrow> nat" where
  "digit_val c = of_char c - 48"

definition nat_of_digits :: "string \<Rightarrow> nat" where
  "nat_of_digits ds = foldl (\<lambda>a c. 10 * a + digit_val c) 0 ds"

definition signed_digits :: "string \<Rightarrow> int" where
  "signed_digits s = (case s of
       [] \<Rightarrow> 0
     | c # r \<Rightarrow>
         if c = CHR ''+'' then int (nat_of_digits (takeWhile is_digit r))
         else if c = CHR ''-'' then - int (nat_of_digits (takeWhile is_digit r))
         else int (nat_of_digits (takeWhile is_digit s)))"

definition exponent_part :: "string \<Rightarrow> int" where
  "exponent_part s = (case s of
       [] \<Rightarrow> 0
     | c # r \<Rightarrow> if c = CHR ''e'' \<or> c = CHR ''E'' then signed_digits r else 0)"

text \<open>
  The decimal with integer digits \<open>ip\<close>, fraction digits \<open>fp\<close> and the text \<open>r\<close> after
  them, where the exponent would be.
\<close>

definition decimal :: "string \<Rightarrow> string \<Rightarrow> string \<Rightarrow> jsnum" where
  "decimal ip fp r =
     (if ip = [] \<and> fp = [] then NaN
      else fl (of_nat (nat_of_digits (ip @ fp)) * pow10 (exponent_part r - int (length fp))))"

definition after_digits :: "string \<Rightarrow> string \<Rightarrow> jsnum" where
  "after_digits ip r = (case r of
       [] \<Rightarrow> decimal ip [] []
     | c # t \<Rightarrow>
         if c = CHR ''.'' then decimal ip (takeWhile is_digit t) (dropWhile is_digit t)
         else decimal ip [] r)"

definition parse_unsigned :: "string \<Rightarrow> jsnum" where
  "parse_unsigned s =
     (if prefix ''Infinity'' s then PosInf
      else after_digits (takeWhile is_digit s) (dropWhile is_digit s))"

definition parseFloat_string :: "string \<Rightarrow> jsnum" where
  "parseFloat_string s =
     (case skip_ws s of
        [] \<Rightarrow> NaN
      | c # r \<Rightarrow>
          if c = CHR ''-'' then js_neg (parse_unsigned r)
          else if c = CHR ''+'' then parse_unsigned r
          else parse_unsigned (c # r))"

definition ToString :: "jsval \<Rightarrow> string" where
  "ToString v = (case v of Undefined \<Rightarrow> ''undefined'' | Str s \<Rightarrow> s
                 | Num n \<Rightarrow> Number_toString n)"

definition parseFloat :: "jsval \<Rightarrow> jsnum" where
  "parseFloat v = parseFloat_string (ToString v)"

text \<open>\<open>v || 0\<close>: the absent value, the empty string, zero and \<open>NaN\<close> are falsy.\<close>

definition falsy :: "jsval \<Rightarrow> bool" where
  "falsy v = (case v of Undefined \<Rightarrow> True | Str s \<Rightarrow> s = []
              | Num n \<Rightarrow> n = Fin 0 \<or> n = NaN)"

definition or_zero :: "jsval \<Rightarrow> jsval" where
  "or_zero v = (if falsy v then Num (Fin 0) else v)"

section \<open>The state of the process\<close>

text \<open>
  The module variables of server.js, and of the runtime the interval timers that
  \<open>setInterval\<close> has installed and \<open>clearInterval\<close> has not removed: each with its
  handle and the delay it was given. \<open>null\<close> is \<open>None\<close>. A timer handle is an object of
  the runtime, so \<open>if (intervalId)\<close> holds exactly when the variable is not \<open>null\<close>.
\<close>

record state =
  longThreshold :: jsnum
  shortThreshold :: jsnum
  pollingIntervalMs :: jsnum
  lastLongLiq :: jsnum
  lastShortLiq :: jsnum
  lastLongAlertValue :: "jsnum option"
  lastShortAlertValue :: "jsnum option"
  intervalId :: "nat option"
  timers :: "(nat \<times> jsnum) list"
  next_timer :: nat

definition initial :: state where
  "initial = \<lparr> longThreshold = Fin 5000000, shortThreshold = Fin 10000000,
       pollingIntervalMs = Fin 60000, lastLongLiq = Fin 0, lastShortLiq = Fin 0,
       lastLongAlertValue = None, lastShortAlertValue = None, intervalId = None,
       timers = [], next_timer = 0 \<rparr>"

definition clearInterval :: "nat \<Rightarrow> state \<Rightarrow> state" where
  "clearInterval h s = s\<lparr>timers := filter (\<lambda>t. fst t \<noteq> h) (timers s)\<rparr>"

definition setInterval :: "jsnum \<Rightarrow> state \<Rightarrow> nat \<times> state" where
  "setInterval delay s =
     (next_timer s,
      s\<lparr>timers := timers s @ [(next_timer s, delay)], next_timer := Suc (next_timer s)\<rparr>)"

definition scheduleCheckLiquidations :: "state \<Rightarrow> state" where
  "scheduleCheckLiquidations s =
     (let s1 = (case intervalId s of None \<Rightarrow> s | Some h \<Rightarrow> clearInterval h s);
          (h', s2) = setInterval (pollingIntervalMs s1) s1
      in s2\<lparr>intervalId := Some h'\<rparr>)"

text \<open>The module calls \<open>scheduleCheckLiquidations()\<close> once when it is loaded.\<close>

definition startup :: state where
  "startup = scheduleCheckLiquidations initial"

section \<open>One run of checkLiquidations\<close>

text \<open>
  What the request to the provider gave: a rejection, with the \<open>code\<close> of the error if
  it has one, or a response, with the value of \<open>response.data?.data\<close>: \<open>None\<close> when it
  is absent or \<open>null\<close>, else the array (the shape the provider documents; a value
  of another type is not modelled). An element of the array is \<open>null\<close> or an
  object, of which the two fields that are read are kept (an absent field and a
  \<open>null\<close> one are both \<open>Undefined\<close>).

  What the run does besides changing the state: the messages it passes to
  \<open>sendTelegramAlert\<close>, in order, and the retry it hands to \<open>setTimeout\<close>, as the
  argument of the later call and the delay in milliseconds. The answer of the messaging
  service is the parameter \<open>send\<close>: \<open>sendTelegramAlert\<close> returns \<open>true\<close> when the
  service accepts the message and \<open>false\<close> when the call fails.

  A run is suspended at three places: at \<open>await axios.get\<close> and at the two
  \<open>await sendTelegramAlert\<close>. Between two of them the code runs without interruption;
  while a run is suspended, other runs and the control endpoint may run and assign the
  module variables, and the run reads them again when it goes on. So a run is given by
  its segments, each from one suspension to the next.
\<close>

datatype candle = JNull | Candle jsval jsval

datatype fetch_result = Rejected "string option" | Resolved "candle list option"

record effects =
  sent :: "string list"
  retry :: "(nat \<times> nat) option"

definition attribution :: string where
  "attribution = [CHR 0xC2, CHR 0xA9] @ '' 2025 VORFX | All rights reserved.''"

definition long_message :: "jsnum \<Rightarrow> string" where
  "long_message v =
     (let fullFormat = formatWithCommasAndDot v;
          shortFormat = formatShortValue v
      in ''CG LONG Liquidations'' @ [CHR 0x0A] @
         ''BTCUSDT.P Long Liquidations: $'' @ fullFormat @ [CHR 0x0A] @
         ''($'' @ shortFormat @ '')'' @ [CHR 0x0A, CHR 0x0A] @
         attribution)"

definition short_message :: "jsnum \<Rightarrow> string" where
  "short_message v =
     (let fullFormat = formatWithCommasAndDot v;
          shortFormat = formatShortValue v
      in ''CG SHORT Liquidations'' @ [CHR 0x0A] @
         ''BTCUSDT.P Short Liquidations: $'' @ fullFormat @ [CHR 0x0A] @
         ''($'' @ shortFormat @ '')'' @ [CHR 0x0A, CHR 0x0A] @
         attribution)"

text \<open>
  The long side up to its \<open>await\<close>: the two tests, on the module variables as they are
  then, and the message that is passed to \<open>sendTelegramAlert\<close>, if one is. After the
  \<open>await\<close> the assignment to \<open>lastLongAlertValue\<close> reads \<open>lastLongLiq\<close> again. The same
  for the short side.
\<close>

definition long_side :: "state \<Rightarrow> string option" where
  "long_side s =
     (if js_gt (lastLongLiq s) (longThreshold s) then
        (if (case lastLongAlertValue s of None \<Rightarrow> True
             | Some l \<Rightarrow> js_strict_neq (lastLongLiq s) l)
         then Some (long_message (lastLongLiq s))
         else None)
      else None)"

definition long_sent :: "bool \<Rightarrow> state \<Rightarrow> state" where
  "long_sent success s = (if success then s\<lparr>lastLongAlertValue := Some (lastLongLiq s)\<rparr> else s)"

definition short_side :: "state \<Rightarrow> string option" where
  "short_side s =
     (if js_gt (lastShortLiq s) (shortThreshold s) then
        (if (case lastShortAlertValue s of None \<Rightarrow> True
             | Some l \<Rightarrow> js_strict_neq (lastShortLiq s) l)
         then Some (short_message (lastShortLiq s))
         else None)
      else None)"

definition short_sent :: "bool \<Rightarrow> state \<Rightarrow> state" where
  "short_sent success s =
     (if success then s\<lparr>lastShortAlertValue := Some (lastShortLiq s)\<rparr> else s)"

text \<open>
  A suspended run waits for the provider, with its \<open>retryCount\<close>, or for the messaging
  service to answer the long or the short message. A segment gives the module variables
  as it leaves them, what it sent and scheduled, and where the run is suspended next,
  if it is not over.
\<close>

datatype waiting = Request nat | LongSend string | ShortSend string

type_synonym segment = "state \<times> effects \<times> waiting option"

definition from_short :: "state \<Rightarrow> segment" where
  "from_short s =
     (case short_side s of
        None \<Rightarrow> (s, \<lparr>sent = [], retry = None\<rparr>, None)
      | Some msg \<Rightarrow> (s, \<lparr>sent = [msg], retry = None\<rparr>, Some (ShortSend msg)))"

definition from_long :: "state \<Rightarrow> segment" where
  "from_long s =
     (case long_side s of
        None \<Rightarrow> from_short s
      | Some msg \<Rightarrow> (s, \<lparr>sent = [msg], retry = None\<rparr>, Some (LongSend msg)))"

definition after_long :: "bool \<Rightarrow> state \<Rightarrow> segment" where
  "after_long success s = from_short (long_sent success s)"

definition after_short :: "bool \<Rightarrow> state \<Rightarrow> segment" where
  "after_short success s = (short_sent success s, \<lparr>sent = [], retry = None\<rparr>, None)"

text \<open>
  The \<open>catch\<close> block: a retry after 5000 ms when the code of the error is
  \<open>ECONNRESET\<close> or \<open>ETIMEDOUT\<close> and \<open>retryCount < 3\<close>.
\<close>

definition on_error :: "string option \<Rightarrow> nat \<Rightarrow> (nat \<times> nat) option" where
  "on_error code retryCount =
     (if (code = Some ''ECONNRESET'' \<or> code = Some ''ETIMEDOUT'') \<and> retryCount < 3
      then (let nextAttempt = retryCount + 1 in Some (nextAttempt, 5000))
      else None)"

text \<open>
  Reading a field of a \<open>null\<close> element throws a TypeError inside the \<open>try\<close> block,
  before any assignment; the \<open>catch\<close> block receives it, and it has no code.
\<close>

definition after_fetch :: "fetch_result \<Rightarrow> nat \<Rightarrow> state \<Rightarrow> segment" where
  "after_fetch fetched retryCount s =
     (case fetched of
        Rejected code \<Rightarrow> (s, \<lparr>sent = [], retry = on_error code retryCount\<rparr>, None)
      | Resolved d \<Rightarrow>
          (let data = (case d of None \<Rightarrow> [] | Some a \<Rightarrow> a) in
           if 0 < length data then
             (case data ! 0 of
                JNull \<Rightarrow> (s, \<lparr>sent = [], retry = on_error None retryCount\<rparr>, None)
              | Candle longLiquidationUsd shortLiquidationUsd \<Rightarrow>
                  (let s1 = s\<lparr>lastLongLiq := parseFloat (or_zero longLiquidationUsd)\<rparr>;
                       s2 = s1\<lparr>lastShortLiq := parseFloat (or_zero shortLiquidationUsd)\<rparr>
                   in from_long s2))
           else (s, \<lparr>sent = [], retry = None\<rparr>, None)))"

text \<open>
  A run that nothing interrupts: every answer of the messaging service arrives before
  any other run or request is served, so that the run goes on from the module variables
  as it left them. \<open>check_long\<close> and \<open>check_short\<close> are the two sides and
  \<open>checkLiquidations\<close> is the whole run in that case, the answers being those of \<open>send\<close>.
\<close>

definition check_long :: "(string \<Rightarrow> bool) \<Rightarrow> state \<Rightarrow> state \<times> string list" where
  "check_long send s =
     (case long_side s of
        None \<Rightarrow> (s, [])
      | Some msg \<Rightarrow> (long_sent (send msg) s, [msg]))"

definition check_short :: "(string \<Rightarrow> bool) \<Rightarrow> state \<Rightarrow> state \<times> string list" where
  "check_short send s =
     (case short_side s of
        None \<Rightarrow> (s, [])
      | Some msg \<Rightarrow> (short_sent (send msg) s, [msg]))"

definition checkLiquidations ::
    "fetch_result \<Rightarrow> (string \<Rightarrow> bool) \<Rightarrow> nat \<Rightarrow> state \<Rightarrow> state \<times> effects" where
  "checkLiquidations fetched send retryCount s =
     (case fetched of
        Rejected code \<Rightarrow> (s, \<lparr>sent = [], retry = on_error code retryCount\<rparr>)
      | Resolved d \<Rightarrow>
          (let data = (case d of None \<Rightarrow> [] | Some a \<Rightarrow> a) in
           if 0 < length data then
             (case data ! 0 of
                JNull \<Rightarrow> (s, \<lparr>sent = [], retry = on_error None retryCount\<rparr>)
              | Candle longLiquidationUsd shortLiquidationUsd \<Rightarrow>
                  (let s1 = s\<lparr>lastLongLiq := parseFloat (or_zero longLiquidationUsd)\<rparr>;
                       s2 = s1\<lparr>lastShortLiq := parseFloat (or_zero shortLiquidationUsd)\<rparr>;
                       (s3, m1) = check_long send s2;
                       (s4, m2) = check_short send s3
                   in (s4, \<lparr>sent = m1 @ m2, retry = None\<rparr>)))
           else (s, \<lparr>sent = [], retry = None\<rparr>)))"

text \<open>
  A run and the retries that follow it: the environment gives, for each attempt in turn,
  the outcome of the request and the answers of the messaging service. The result is the
  final state, the messages of all attempts, and the \<open>retryCount\<close> of every attempt
  that was started or, for the last, left scheduled when the answers end.
\<close>

fun attempts :: "(fetch_result \<times> (string \<Rightarrow> bool)) list \<Rightarrow> nat \<Rightarrow> state \<Rightarrow>
    state \<times> string list \<times> nat list" where
  "attempts [] retryCount s = (s, [], [retryCount])"
| "attempts (e # es) retryCount s =
     (let (s', eff) = checkLiquidations (fst e) (snd e) retryCount s in
      case retry eff of
        None \<Rightarrow> (s', sent eff, [retryCount])
      | Some (nextAttempt, delay) \<Rightarrow>
          (let (s'', ms, rs) = attempts es nextAttempt s'
           in (s'', sent eff @ ms, retryCount # rs)))"

section \<open>The control endpoint\<close>

text \<open>
  The body of a \<open>POST /set-params\<close> request after the urlencoded parser: each of the
  three fields is a string or absent.
\<close>

record body =
  b_longThreshold :: jsval
  b_shortThreshold :: jsval
  b_pollInterval :: jsval

datatype response = Redirect string

definition set_params :: "body \<Rightarrow> state \<Rightarrow> state \<times> response" where
  "set_params b s =
     (let lt = parseFloat (b_longThreshold b);
          st = parseFloat (b_shortThreshold b);
          pi = parseFloat (b_pollInterval b);
          s1 = (if \<not> isNaN lt then s\<lparr>longThreshold := lt\<rparr> else s);
          s2 = (if \<not> isNaN st then s1\<lparr>shortThreshold := st\<rparr> else s1);
          s3 = (if \<not> isNaN pi \<and> js_gt pi (Fin 0)
                then scheduleCheckLiquidations (s2\<lparr>pollingIntervalMs := js_mul pi (Fin 1000)\<rparr>)
                else s2)
      in (s3, Redirect ''/''))"

text \<open>
  The states of the module variables when no run is interrupted: the one after loading
  the module, and from there any run of \<open>checkLiquidations\<close> and any request to the
  control endpoint.
\<close>

inductive reachable :: "state \<Rightarrow> bool" where
  start: "reachable startup"
| tick: "reachable s \<Longrightarrow> reachable (fst (checkLiquidations fetched send retryCount s))"
| control: "reachable s \<Longrightarrow> reachable (fst (set_params b s))"

section \<open>Runs that overlap\<close>

text \<open>
  The process as the event loop runs it: the module variables, the runs that were
  started, each suspended somewhere or over (a run is named by its position), the
  retries that \<open>setTimeout\<close> holds and that have not fired, and every message that was
  passed to \<open>sendTelegramAlert\<close>, with the run that passed it, in order.

  An event is served as a whole: the interval timer fires and starts a run; a timeout
  fires and starts the retry it holds; the request of a run settles; the messaging
  service answers the message a run waits for; a request reaches the control endpoint.
  Events come in any order the network and the timers produce. An event that cannot
  happen in the state (no timer, no such timeout, the run does not wait for that) gives
  \<open>None\<close>.
\<close>

record process =
  globals :: state
  runs :: "waiting option list"
  timeouts :: "nat list"
  outbox :: "(nat \<times> string) list"

datatype event =
    Tick
  | Timeout nat
  | Settled nat fetch_result
  | Delivered nat bool
  | Post body

definition run_at :: "nat \<Rightarrow> process \<Rightarrow> waiting option" where
  "run_at i p = (if i < length (runs p) then runs p ! i else None)"

definition proceed :: "nat \<Rightarrow> segment \<Rightarrow> process \<Rightarrow> process" where
  "proceed i seg p =
     (case seg of (s, eff, w) \<Rightarrow>
        p\<lparr>globals := s,
          runs := (runs p)[i := w],
          timeouts := timeouts p @ (case retry eff of None \<Rightarrow> [] | Some (n, delay) \<Rightarrow> [n]),
          outbox := outbox p @ map (Pair i) (sent eff)\<rparr>)"

fun step :: "event \<Rightarrow> process \<Rightarrow> process option" where
  "step Tick p =
     (if timers (globals p) = [] then None
      else Some (p\<lparr>runs := runs p @ [Some (Request 0)]\<rparr>))"
| "step (Timeout n) p =
     (if n \<in> set (timeouts p)
      then Some (p\<lparr>timeouts := remove1 n (timeouts p), runs := runs p @ [Some (Request n)]\<rparr>)
      else None)"
| "step (Settled i fetched) p =
     (case run_at i p of
        Some (Request retryCount) \<Rightarrow> Some (proceed i (after_fetch fetched retryCount (globals p)) p)
      | _ \<Rightarrow> None)"
| "step (Delivered i success) p =
     (case run_at i p of
        Some (LongSend msg) \<Rightarrow> Some (proceed i (after_long success (globals p)) p)
      | Some (ShortSend msg) \<Rightarrow> Some (proceed i (after_short success (globals p)) p)
      | _ \<Rightarrow> None)"
| "step (Post b) p = Some (p\<lparr>globals := fst (set_params b (globals p))\<rparr>)"

fun exec :: "event list \<Rightarrow> process \<Rightarrow> process option" where
  "exec [] p = Some p"
| "exec (e # es) p = (case step e p of None \<Rightarrow> None | Some p' \<Rightarrow> exec es p')"

text \<open>The process when the module has been loaded.\<close>

definition loaded :: process where
  "loaded = \<lparr> globals = startup, runs = [], timeouts = [], outbox = [] \<rparr>"

section \<open>Notions of the specification\<close>

text \<open>
  A transient failure is a connection reset or a timeout, as the error codes name them.
\<close>

definition transient :: "string \<Rightarrow> bool" where
  "transient code = (code = ''ECONNRESET'' \<or> code = ''ETIMEDOUT'')"

text \<open>
  The timers of the runtime are tracked when the only one, if any, is the one that
  \<open>intervalId\<close> holds; the process is on schedule when that timer exists and runs at
  the current polling period.
\<close>

definition tracked :: "state \<Rightarrow> bool" where
  "tracked s = ((intervalId s = None \<and> timers s = []) \<or>
                (\<exists>h d. intervalId s = Some h \<and> timers s = [(h, d)]))"

definition on_schedule :: "state \<Rightarrow> bool" where
  "on_schedule s = (\<exists>h. intervalId s = Some h \<and> timers s = [(h, pollingIntervalMs s)])"

text \<open>
  Environments for the examples: a messaging service that accepts every message, one
  that accepts none, a response with a long value of 6,000,000 and a short value of
  12,000,000, and the state after that response at startup when the service accepts.
\<close>

definition accepts_all :: "string \<Rightarrow> bool" where
  "accepts_all m = True"

definition accepts_none :: "string \<Rightarrow> bool" where
  "accepts_none m = False"

definition both_high :: fetch_result where
  "both_high = Resolved (Some [Candle (Str ''6000000'') (Str ''12000000'')])"

definition alerted :: state where
  "alerted = fst (checkLiquidations both_high accepts_all 0 startup)"

text \<open>
  Responses with a long value of 6,000,000, of 7,250,000, of 8,200,000 and of 7,000,000
  and no short value, and four request bodies: one that lowers both thresholds, one that sets the
  long threshold and a polling interval of 30 seconds, one with that interval only, and
  one with no number in it and an interval of 0.
\<close>

definition long_6000000 :: fetch_result where
  "long_6000000 = Resolved (Some [Candle (Str ''6000000'') Undefined])"

definition long_7250000 :: fetch_result where
  "long_7250000 = Resolved (Some [Candle (Str ''7250000'') Undefined])"

definition long_8200000 :: fetch_result where
  "long_8200000 = Resolved (Some [Candle (Str ''8200000'') Undefined])"

definition long_7000000 :: fetch_result where
  "long_7000000 = Resolved (Some [Candle (Str ''7000000'') Undefined])"

definition lower_thresholds :: body where
  "lower_thresholds = \<lparr> b_longThreshold = Str ''1000'', b_shortThreshold = Str ''1000'',
       b_pollInterval = Undefined \<rparr>"

definition faster :: body where
  "faster = \<lparr> b_longThreshold = Str ''7000000'', b_shortThreshold = Undefined,
       b_pollInterval = Str ''30'' \<rparr>"

definition interval_only :: body where
  "interval_only = \<lparr> b_longThreshold = Undefined, b_shortThreshold = Undefined,
       b_pollInterval = Str ''30'' \<rparr>"

definition no_numbers :: body where
  "no_numbers = \<lparr> b_longThreshold = Str ''abc'', b_shortThreshold = Str [],
       b_pollInterval = Str ''0'' \<rparr>"

section \<open>The rounding is to nearest\<close>

text \<open>
  \<open>ilog 2 x\<close> is the binary exponent of a positive \<open>x\<close>, and \<open>fl_pos\<close> returns a multiple of
  the spacing \<open>ulp x\<close> of the binary64 values around \<open>x\<close> that is no further from \<open>x\<close> than
  half that spacing: the number model rounds as IEEE 754 prescribes.
\<close>

lemma log_up_bounds:
  "2 \<le> b \<Longrightarrow> 1 \<le> x \<Longrightarrow>
     0 \<le> log_up b x \<and> of_int b ^ nat (log_up b x) \<le> x \<and> x < of_int b ^ nat (log_up b x + 1)"
proof (induction b x rule: log_up.induct)
  case (1 b x)
  have bpos: "(0::rat) < of_int b" using "1.prems"(1) by simp
  show ?case
  proof (cases "of_int b \<le> x")
    case True
    then have step: "log_up b x = log_up b (x / of_int b) + 1"
      using "1.prems"(1) by (simp add: log_up.simps [of b x])
    have "1 \<le> x / of_int b" using True bpos by (simp add: le_divide_eq)
    with "1.IH" "1.prems"(1) True
    have ih: "0 \<le> log_up b (x / of_int b)"
      "of_int b ^ nat (log_up b (x / of_int b)) \<le> x / of_int b"
      "x / of_int b < of_int b ^ nat (log_up b (x / of_int b) + 1)"
      by simp_all
    let ?k = "log_up b (x / of_int b)"
    have n1: "nat (?k + 1) = Suc (nat ?k)" using ih(1) by (simp add: nat_add_distrib)
    have n2: "nat (log_up b x + 1) = Suc (Suc (nat ?k))" using ih(1) by (simp add: step nat_add_distrib)
    have n3: "nat (log_up b x) = Suc (nat ?k)" using n1 by (simp add: step)
    have n4: "0 \<le> log_up b x" using ih(1) by (simp add: step)
    have lo: "of_int b ^ Suc (nat ?k) \<le> x"
      using ih(2) bpos by (simp add: le_divide_eq mult.commute)
    have hi: "x < of_int b ^ Suc (Suc (nat ?k))"
      using ih(3) bpos n1 by (simp add: divide_less_eq mult.commute)
    show ?thesis using n4 lo hi unfolding n2 n3 by blast
  next
    case False
    then have "log_up b x = 0" by (simp add: log_up.simps [of b x])
    with False "1.prems" show ?thesis by simp
  qed
qed

lemma log_down_bounds:
  "2 \<le> b \<Longrightarrow> 0 < x \<Longrightarrow> x < 1 \<Longrightarrow>
     log_down b x < 0 \<and> 1 / of_int b ^ nat (- log_down b x) \<le> x \<and>
     x < 1 / of_int b ^ nat (- log_down b x - 1)"
proof (induction b x rule: log_down.induct)
  case (1 b x)
  have bpos: "(0::rat) < of_int b" using "1.prems"(1) by simp
  have step: "log_down b x = log_down b (x * of_int b) - 1"
    using "1.prems" by (simp add: log_down.simps [of b x])
  have xb: "0 < x * of_int b" using "1.prems"(2) bpos by simp
  show ?case
  proof (cases "x * of_int b < 1")
    case True
    with "1.IH" "1.prems" xb
    have ih: "log_down b (x * of_int b) < 0"
      "1 / of_int b ^ nat (- log_down b (x * of_int b)) \<le> x * of_int b"
      "x * of_int b < 1 / of_int b ^ nat (- log_down b (x * of_int b) - 1)"
      by simp_all
    let ?k = "log_down b (x * of_int b)"
    have n1: "nat (- log_down b x) = Suc (nat (- ?k))" using ih(1) by (simp add: step)
    have n2: "nat (- log_down b x - 1) = nat (- ?k)" by (simp add: step)
    have n3: "nat (- ?k) = Suc (nat (- ?k - 1))" using ih(1) by simp
    have n4: "log_down b x < 0" using ih(1) by (simp add: step)
    have lo: "1 / of_int b ^ Suc (nat (- ?k)) \<le> x"
      using ih(2) bpos by (simp add: field_simps)
    have "x * of_int b < 1 / of_int b ^ nat (- ?k - 1)" by (rule ih(3))
    then have "x < 1 / of_int b ^ Suc (nat (- ?k - 1))"
      using bpos by (simp add: field_simps)
    then have hi: "x < 1 / of_int b ^ nat (- ?k)" unfolding n3 [symmetric] .
    show ?thesis using n4 lo hi unfolding n1 n2 by blast
  next
    case False
    then have z: "log_down b (x * of_int b) = 0" by (simp add: log_down.simps [of b "x * of_int b"])
    have "1 / of_int b \<le> x" using False bpos by (simp add: field_simps)
    with "1.prems" show ?thesis by (simp add: step z)
  qed
qed

lemma ilog2_bounds:
  assumes "0 < x"
  shows "pow2 (ilog 2 x) \<le> x \<and> x < pow2 (ilog 2 x + 1)"
proof (cases "1 \<le> x")
  case True
  from log_up_bounds [of 2 x] True
  have "0 \<le> log_up 2 x" "2 ^ nat (log_up 2 x) \<le> x" "x < 2 ^ nat (log_up 2 x + 1)"
    by simp_all
  with True show ?thesis by (simp add: ilog_def pow2_def)
next
  case False
  with assms log_down_bounds [of 2 x]
  have k: "log_down 2 x < 0" "1 / 2 ^ nat (- log_down 2 x) \<le> x"
    "x < 1 / 2 ^ nat (- log_down 2 x - 1)"
    by simp_all
  have "nat (- (log_down 2 x + 1)) = nat (- log_down 2 x - 1)" by simp
  with False k show ?thesis
    by (cases "log_down 2 x + 1 = 0") (auto simp: ilog_def pow2_def)
qed

lemma round_half_even_close: "\<bar>of_int (round_half_even m) - m\<bar> \<le> 1 / 2"
proof -
  have "of_int \<lfloor>m\<rfloor> \<le> m" "m < of_int \<lfloor>m\<rfloor> + 1" by linarith+
  then show ?thesis by (auto simp: round_half_even_def)
qed

lemma ulp_pos: "0 < ulp x"
  by (simp add: ulp_def pow2_def)

lemma fl_pos_close:
  assumes "fl_pos x = Fin r"
  shows "\<bar>r - x\<bar> \<le> ulp x / 2"
proof -
  from assms have r: "r = of_int (round_half_even (x / ulp x)) * ulp x"
    by (simp add: fl_pos_def overflow_def nearest_multiple_def split: if_splits)
  have "(of_int (round_half_even (x / ulp x)) - x / ulp x) * ulp x = r - x"
    using ulp_pos [of x] by (simp add: r left_diff_distrib)
  then have "\<bar>r - x\<bar> = \<bar>(of_int (round_half_even (x / ulp x)) - x / ulp x) * ulp x\<bar>"
    by simp
  also have "\<dots> = \<bar>of_int (round_half_even (x / ulp x)) - x / ulp x\<bar> * ulp x"
    using ulp_pos [of x] by (simp only: abs_mult abs_of_pos)
  also have "\<dots> \<le> 1 / 2 * ulp x"
    using round_half_even_close [of "x / ulp x"] ulp_pos [of x]
    by (intro mult_right_mono) auto
  finally show ?thesis by simp
qed

section \<open>Evaluating the number model\<close>

lemma floor_rat_numeral: "\<lfloor>(numeral a / numeral b :: rat)\<rfloor> = numeral a div numeral b"
  using floor_divide_of_int_eq [of "numeral a" "numeral b", where ?'a = rat] by simp

lemma ceiling_rat_numeral:
  "\<lceil>(numeral a / numeral b :: rat)\<rceil> = - ((- numeral a) div numeral b)"
  using ceiling_divide_eq_div [of "numeral a" "numeral b", where ?'a = rat] by simp

lemma floor_rat_one_numeral: "\<lfloor>(1 / numeral b :: rat)\<rfloor> = 1 div numeral b"
  using floor_divide_of_int_eq [of 1 "numeral b", where ?'a = rat] by simp

lemma ceiling_rat_one_numeral: "\<lceil>(1 / numeral b :: rat)\<rceil> = - ((- 1) div numeral b)"
  using ceiling_divide_eq_div [of 1 "numeral b", where ?'a = rat] by simp

lemmas num_eval = fl_def fl_pos_def overflow_def nearest_multiple_def ulp_def ilog_def
  log_up.simps log_down.simps pow2_def pow10_def round_half_even_def js_neg_def
  floor_rat_numeral ceiling_rat_numeral floor_rat_one_numeral ceiling_rat_one_numeral

lemmas str_eval = num_eval digits_ok_def pick_digits_def choose_digits_def nearer_above_def
  shortest_digits_def render_digits_def place_digits_def toString_pos_def Number_toString_def
  string_of_nat.simps digit_char_def

lemmas fmt_eval = str_eval js_ge_def js_div_def js_mul_def Math_floor_def Math_pow10_def
  toLocaleString2_def shortest_decimal_def fixed2_def hundredths_def with_commas_def
  formatWithCommasAndDot_def

lemmas src_let = formatShortValue_def truncToDecimals_def long_message_def short_message_def
  Let_def

lemmas parse_eval = num_eval parseFloat_def ToString_def or_zero_def falsy_def
  parseFloat_string_def is_ws_def wide_ws_def parse_unsigned_def after_digits_def decimal_def is_digit_def
  nat_of_digits_def digit_val_def exponent_part_def signed_digits_def

lemma parseFloat_Undefined: "parseFloat Undefined = NaN"
  by (simp add: parse_eval)

lemma parse_absent: "parseFloat (or_zero Undefined) = Fin 0"
  by (simp add: parse_eval str_eval)

lemma parse_6000000: "parseFloat (or_zero (Str ''6000000'')) = Fin 6000000"
  by (simp add: parse_eval)

lemma parse_12000000: "parseFloat (or_zero (Str ''12000000'')) = Fin 12000000"
  by (simp add: parse_eval)

lemma parse_7250000: "parseFloat (or_zero (Str ''7250000'')) = Fin 7250000"
  by (simp add: parse_eval)

lemma parse_8200000: "parseFloat (or_zero (Str ''8200000'')) = Fin 8200000"
  by (simp add: parse_eval)

lemma parse_1000: "parseFloat (Str ''1000'') = Fin 1000"
  by (simp add: parse_eval)

lemma parse_7000000: "parseFloat (Str ''7000000'') = Fin 7000000"
  by (simp add: parse_eval)

lemma parse_sample_7000000: "parseFloat (or_zero (Str ''7000000'')) = Fin 7000000"
  by (simp add: parse_eval)

lemma parse_30: "parseFloat (Str ''30'') = Fin 30"
  by (simp add: parse_eval)

lemma parse_0: "parseFloat (Str ''0'') = Fin 0"
  by (simp add: parse_eval)

lemma parse_abc: "parseFloat (Str ''abc'') = NaN"
  by (simp add: parse_eval)

lemma parse_empty: "parseFloat (Str []) = NaN"
  by (simp add: parse_eval)

lemma ms_of_30: "js_mul (Fin 30) (Fin 1000) = Fin 30000"
  by (simp add: js_mul_def num_eval)

section \<open>What one run does\<close>

lemma js_gt_not_NaN: "js_gt a t \<Longrightarrow> a \<noteq> NaN"
  by (auto simp: js_gt_def)

text \<open>Above a threshold, \<open>!==\<close> is plain difference: the value is not \<open>NaN\<close>.\<close>

lemma strict_neq_under_gt: "js_gt a t \<Longrightarrow> js_strict_neq a b \<longleftrightarrow> a \<noteq> b"
  by (auto simp: js_strict_neq_def dest: js_gt_not_NaN)

lemma long_short_distinct: "long_message v \<noteq> short_message w"
  by (simp add: long_message_def short_message_def Let_def)

text \<open>The two sides of a run that nothing interrupts, written out.\<close>

lemma check_long_unfold:
  "check_long send s =
     (if js_gt (lastLongLiq s) (longThreshold s) then
        (if (case lastLongAlertValue s of None \<Rightarrow> True
             | Some l \<Rightarrow> js_strict_neq (lastLongLiq s) l) then
           (let msg = long_message (lastLongLiq s);
                success = send msg
            in (if success then s\<lparr>lastLongAlertValue := Some (lastLongLiq s)\<rparr> else s,
                [msg]))
         else (s, []))
      else (s, []))"
  by (simp add: check_long_def long_side_def long_sent_def)

lemma check_short_unfold:
  "check_short send s =
     (if js_gt (lastShortLiq s) (shortThreshold s) then
        (if (case lastShortAlertValue s of None \<Rightarrow> True
             | Some l \<Rightarrow> js_strict_neq (lastShortLiq s) l) then
           (let msg = short_message (lastShortLiq s);
                success = send msg
            in (if success then s\<lparr>lastShortAlertValue := Some (lastShortLiq s)\<rparr> else s,
                [msg]))
         else (s, []))
      else (s, []))"
  by (simp add: check_short_def short_side_def short_sent_def)

lemma check_long_sent:
  "snd (check_long send s) =
     (if js_gt (lastLongLiq s) (longThreshold s) \<and> lastLongAlertValue s \<noteq> Some (lastLongLiq s)
      then [long_message (lastLongLiq s)] else [])"
  by (auto simp: check_long_unfold Let_def strict_neq_under_gt split: option.splits)

lemma check_short_sent:
  "snd (check_short send s) =
     (if js_gt (lastShortLiq s) (shortThreshold s) \<and>
         lastShortAlertValue s \<noteq> Some (lastShortLiq s)
      then [short_message (lastShortLiq s)] else [])"
  by (auto simp: check_short_unfold Let_def strict_neq_under_gt split: option.splits)

lemma check_long_state:
  "fst (check_long send s) =
     (if js_gt (lastLongLiq s) (longThreshold s) \<and> lastLongAlertValue s \<noteq> Some (lastLongLiq s)
         \<and> send (long_message (lastLongLiq s))
      then s\<lparr>lastLongAlertValue := Some (lastLongLiq s)\<rparr> else s)"
  by (auto simp: check_long_unfold Let_def strict_neq_under_gt split: option.splits)

lemma check_short_state:
  "fst (check_short send s) =
     (if js_gt (lastShortLiq s) (shortThreshold s) \<and>
         lastShortAlertValue s \<noteq> Some (lastShortLiq s) \<and>
         send (short_message (lastShortLiq s))
      then s\<lparr>lastShortAlertValue := Some (lastShortLiq s)\<rparr> else s)"
  by (auto simp: check_short_unfold Let_def strict_neq_under_gt split: option.splits)

text \<open>A run on a response whose first element is an object, in one equation.\<close>

lemma run_on_sample:
  "checkLiquidations (Resolved (Some (Candle lf sf # cs))) send rc s =
     (let s2 = s\<lparr>lastLongLiq := parseFloat (or_zero lf),
                  lastShortLiq := parseFloat (or_zero sf)\<rparr>;
          s3 = fst (check_long send s2)
      in (fst (check_short send s3),
          \<lparr>sent = snd (check_long send s2) @ snd (check_short send s3), retry = None\<rparr>))"
  by (simp add: checkLiquidations_def Let_def split_beta)

lemma sample_sent:
  "sent (snd (checkLiquidations (Resolved (Some (Candle lf sf # cs))) send rc s)) =
     (if js_gt (parseFloat (or_zero lf)) (longThreshold s) \<and>
         lastLongAlertValue s \<noteq> Some (parseFloat (or_zero lf))
      then [long_message (parseFloat (or_zero lf))] else []) @
     (if js_gt (parseFloat (or_zero sf)) (shortThreshold s) \<and>
         lastShortAlertValue s \<noteq> Some (parseFloat (or_zero sf))
      then [short_message (parseFloat (or_zero sf))] else [])"
  by (auto simp: run_on_sample Let_def check_long_sent check_short_sent check_long_state)

lemma sample_long_memory:
  "lastLongAlertValue (fst (checkLiquidations (Resolved (Some (Candle lf sf # cs))) send rc s)) =
     (if js_gt (parseFloat (or_zero lf)) (longThreshold s) \<and>
         lastLongAlertValue s \<noteq> Some (parseFloat (or_zero lf)) \<and>
         send (long_message (parseFloat (or_zero lf)))
      then Some (parseFloat (or_zero lf)) else lastLongAlertValue s)"
  by (auto simp: run_on_sample Let_def check_long_state check_short_state)

lemma sample_short_memory:
  "lastShortAlertValue (fst (checkLiquidations (Resolved (Some (Candle lf sf # cs))) send rc s)) =
     (if js_gt (parseFloat (or_zero sf)) (shortThreshold s) \<and>
         lastShortAlertValue s \<noteq> Some (parseFloat (or_zero sf)) \<and>
         send (short_message (parseFloat (or_zero sf)))
      then Some (parseFloat (or_zero sf)) else lastShortAlertValue s)"
  by (auto simp: run_on_sample Let_def check_long_state check_short_state)

lemma sample_fields:
  "lastLongLiq (fst (checkLiquidations (Resolved (Some (Candle lf sf # cs))) send rc s)) =
     parseFloat (or_zero lf)"
  "lastShortLiq (fst (checkLiquidations (Resolved (Some (Candle lf sf # cs))) send rc s)) =
     parseFloat (or_zero sf)"
  by (auto simp: run_on_sample Let_def check_long_state check_short_state)

lemma run_frame:
  "longThreshold (fst (checkLiquidations fetched send rc s)) = longThreshold s"
  "shortThreshold (fst (checkLiquidations fetched send rc s)) = shortThreshold s"
  "pollingIntervalMs (fst (checkLiquidations fetched send rc s)) = pollingIntervalMs s"
  "intervalId (fst (checkLiquidations fetched send rc s)) = intervalId s"
  "timers (fst (checkLiquidations fetched send rc s)) = timers s"
  "next_timer (fst (checkLiquidations fetched send rc s)) = next_timer s"
  by (simp_all add: checkLiquidations_def Let_def split_beta check_long_state check_short_state
      split: fetch_result.splits candle.splits option.splits)

lemma no_sample_no_change:
  assumes "\<nexists>lf sf cs. fetched = Resolved (Some (Candle lf sf # cs))"
  shows "checkLiquidations fetched send rc s =
       (s, \<lparr>sent = [], retry = (case fetched of Rejected code \<Rightarrow> on_error code rc
                                   | Resolved d \<Rightarrow> None)\<rparr>)"
proof (cases fetched)
  case (Rejected code)
  then show ?thesis by (simp add: checkLiquidations_def)
next
  case (Resolved d)
  show ?thesis
  proof (cases d)
    case None
    with Resolved show ?thesis by (simp add: checkLiquidations_def)
  next
    case (Some a)
    show ?thesis
    proof (cases a)
      case Nil
      with Resolved Some show ?thesis by (simp add: checkLiquidations_def)
    next
      case (Cons c cs)
      with assms Resolved Some have "c = JNull" by (cases c) auto
      with Resolved Some Cons show ?thesis
        by (simp add: checkLiquidations_def on_error_def)
    qed
  qed
qed

lemma run_state_any_count:
  "fst (checkLiquidations fetched send rc s) = fst (checkLiquidations fetched send 0 s)"
  "sent (snd (checkLiquidations fetched send rc s)) = sent (snd (checkLiquidations fetched send 0 s))"
  by (simp_all add: checkLiquidations_def Let_def split_beta
      split: fetch_result.splits option.splits candle.splits)

lemma retry_of_run:
  "retry (snd (checkLiquidations fetched send rc s)) =
     (case fetched of Rejected code \<Rightarrow> on_error code rc | Resolved d \<Rightarrow> None)"
  by (auto simp: checkLiquidations_def Let_def split_beta on_error_def
           split: fetch_result.splits option.splits candle.splits)

lemma transient_run:
  "transient c \<Longrightarrow> checkLiquidations (Rejected (Some c)) send rc s =
     (s, \<lparr>sent = [], retry = (if rc < 3 then Some (rc + 1, 5000) else None)\<rparr>)"
  by (auto simp: checkLiquidations_def on_error_def transient_def)

lemma attempts_bounded:
  "length (snd (snd (attempts es rc s))) \<le> Suc (3 - rc)"
proof (induction es arbitrary: rc s)
  case Nil
  show ?case by simp
next
  case (Cons e es)
  show ?case
  proof (cases "retry (snd (checkLiquidations (fst e) (snd e) rc s))")
    case None
    then show ?thesis by (simp add: split_beta)
  next
    case (Some p)
    then have r: "retry (snd (checkLiquidations (fst e) (snd e) rc s)) = Some (rc + 1, 5000)"
      and lt: "rc < 3"
      by (auto simp: retry_of_run on_error_def Let_def split: fetch_result.splits if_splits)
    have "length (snd (snd (attempts es (rc + 1) (fst (checkLiquidations (fst e) (snd e) rc s)))))
            \<le> Suc (3 - (rc + 1))"
      by (rule Cons.IH)
    with lt r show ?thesis by (simp add: split_beta)
  qed
qed

lemma startup_fields:
  "longThreshold startup = Fin 5000000" "shortThreshold startup = Fin 10000000"
  "pollingIntervalMs startup = Fin 60000"
  "lastLongLiq startup = Fin 0" "lastShortLiq startup = Fin 0"
  "lastLongAlertValue startup = None" "lastShortAlertValue startup = None"
  "intervalId startup = Some 0" "timers startup = [(0, Fin 60000)]" "next_timer startup = 1"
  by (simp_all add: startup_def scheduleCheckLiquidations_def setInterval_def initial_def)

lemma both_high_sent:
  "sent (snd (checkLiquidations both_high send rc startup)) =
     [long_message (Fin 6000000), short_message (Fin 12000000)]"
  by (simp add: both_high_def sample_sent parse_6000000 parse_12000000 startup_fields js_gt_def)

lemma alerted_memory:
  "lastLongAlertValue alerted = Some (Fin 6000000)"
  "lastShortAlertValue alerted = Some (Fin 12000000)"
  by (simp_all add: alerted_def both_high_def sample_long_memory sample_short_memory
      parse_6000000 parse_12000000 startup_fields js_gt_def accepts_all_def)

lemma both_high_run:
  "checkLiquidations both_high accepts_all rc startup =
     (alerted, \<lparr>sent = [long_message (Fin 6000000), short_message (Fin 12000000)],
                retry = None\<rparr>)"
proof -
  let ?run = "checkLiquidations both_high accepts_all rc startup"
  have a: "fst ?run = alerted"
    unfolding alerted_def by (rule run_state_any_count(1))
  have b: "sent (snd ?run) = [long_message (Fin 6000000), short_message (Fin 12000000)]"
    by (rule both_high_sent)
  have c: "retry (snd ?run) = None"
    by (simp add: retry_of_run both_high_def)
  have "snd ?run = \<lparr>sent = [long_message (Fin 6000000), short_message (Fin 12000000)],
      retry = None\<rparr>"
    using b c by (cases "snd ?run") simp
  with a show ?thesis by (simp add: prod_eq_iff)
qed

section \<open>The control endpoint and the scheduler\<close>

lemma schedule_frame:
  "longThreshold (scheduleCheckLiquidations s) = longThreshold s"
  "shortThreshold (scheduleCheckLiquidations s) = shortThreshold s"
  "pollingIntervalMs (scheduleCheckLiquidations s) = pollingIntervalMs s"
  "lastLongLiq (scheduleCheckLiquidations s) = lastLongLiq s"
  "lastShortLiq (scheduleCheckLiquidations s) = lastShortLiq s"
  "lastLongAlertValue (scheduleCheckLiquidations s) = lastLongAlertValue s"
  "lastShortAlertValue (scheduleCheckLiquidations s) = lastShortAlertValue s"
  by (simp_all add: scheduleCheckLiquidations_def setInterval_def clearInterval_def Let_def
      split: option.splits)

lemma set_params_frame:
  "lastLongLiq (fst (set_params b s)) = lastLongLiq s"
  "lastShortLiq (fst (set_params b s)) = lastShortLiq s"
  "lastLongAlertValue (fst (set_params b s)) = lastLongAlertValue s"
  "lastShortAlertValue (fst (set_params b s)) = lastShortAlertValue s"
  by (simp_all add: set_params_def Let_def schedule_frame)

lemma set_params_state:
  "fst (set_params b s) =
     (if \<not> isNaN (parseFloat (b_pollInterval b)) \<and> js_gt (parseFloat (b_pollInterval b)) (Fin 0)
      then scheduleCheckLiquidations
             (s\<lparr>longThreshold := (if isNaN (parseFloat (b_longThreshold b)) then longThreshold s
                                  else parseFloat (b_longThreshold b)),
                shortThreshold := (if isNaN (parseFloat (b_shortThreshold b)) then shortThreshold s
                                   else parseFloat (b_shortThreshold b)),
                pollingIntervalMs := js_mul (parseFloat (b_pollInterval b)) (Fin 1000)\<rparr>)
      else s\<lparr>longThreshold := (if isNaN (parseFloat (b_longThreshold b)) then longThreshold s
                                else parseFloat (b_longThreshold b)),
              shortThreshold := (if isNaN (parseFloat (b_shortThreshold b)) then shortThreshold s
                                 else parseFloat (b_shortThreshold b))\<rparr>)"
  by (simp add: set_params_def Let_def)

lemma schedule_timers:
  "tracked s \<Longrightarrow>
   timers (scheduleCheckLiquidations s) = [(next_timer s, pollingIntervalMs s)] \<and>
   intervalId (scheduleCheckLiquidations s) = Some (next_timer s)"
  by (auto simp: tracked_def scheduleCheckLiquidations_def setInterval_def clearInterval_def
      Let_def)

lemma tracked_schedule: "tracked s \<Longrightarrow> tracked (scheduleCheckLiquidations s)"
  using schedule_timers [of s] by (simp add: tracked_def)

lemma on_schedule_tracked: "on_schedule s \<Longrightarrow> tracked s"
  by (auto simp: on_schedule_def tracked_def)

lemma on_schedule_after: "tracked s \<Longrightarrow> on_schedule (scheduleCheckLiquidations s)"
  using schedule_timers [of s] by (simp add: on_schedule_def schedule_frame)

lemma on_schedule_startup: "on_schedule startup"
  unfolding startup_def by (rule on_schedule_after) (simp add: tracked_def initial_def)

lemma on_schedule_tick:
  "on_schedule s \<Longrightarrow> on_schedule (fst (checkLiquidations fetched send rc s))"
  by (simp add: on_schedule_def run_frame)

lemma on_schedule_control: "on_schedule s \<Longrightarrow> on_schedule (fst (set_params b s))"
proof -
  assume a: "on_schedule s"
  have t: "tracked (s\<lparr>longThreshold := x, shortThreshold := y, pollingIntervalMs := z\<rparr>)"
    for x y z using a by (auto simp: on_schedule_def tracked_def)
  have k: "on_schedule (s\<lparr>longThreshold := x, shortThreshold := y\<rparr>)"
    for x y using a by (auto simp: on_schedule_def)
  show ?thesis
    unfolding set_params_state using on_schedule_after [OF t] k by presburger
qed

lemma reachable_on_schedule: "reachable s \<Longrightarrow> on_schedule s"
  by (induction rule: reachable.induct)
     (simp_all add: on_schedule_startup on_schedule_tick on_schedule_control)

section \<open>What overlapping runs do\<close>

lemmas proc_eval = run_at_def proceed_def after_fetch_def from_long_def from_short_def
  after_long_def after_short_def long_side_def short_side_def long_sent_def short_sent_def
  js_gt_def js_strict_neq_def

text \<open>
  When every answer to a run arrives before any other event, the process does what
  \<open>checkLiquidations\<close> says: the events are the settling of the request and then, for each
  message the run sends, the answer \<open>send\<close> gives to it.
\<close>

lemma run_alone:
  assumes "run_at i p = Some (Request rc)"
  shows "exec (Settled i f #
               map (\<lambda>m. Delivered i (send m)) (sent (snd (checkLiquidations f send rc (globals p))))) p =
         Some (p\<lparr>globals := fst (checkLiquidations f send rc (globals p)),
                 runs := (runs p)[i := None],
                 timeouts := timeouts p @
                   (case retry (snd (checkLiquidations f send rc (globals p))) of
                      None \<Rightarrow> [] | Some (n, delay) \<Rightarrow> [n]),
                 outbox := outbox p @
                   map (Pair i) (sent (snd (checkLiquidations f send rc (globals p))))\<rparr>)"
proof -
  from assms have i: "i < length (runs p)" by (simp add: run_at_def split: if_splits)
  show ?thesis
  proof (cases f)
    case (Rejected c)
    with assms show ?thesis
      by (simp add: checkLiquidations_def after_fetch_def proceed_def split: option.splits)
  next
    case (Resolved d)
    show ?thesis
    proof (cases "case d of None \<Rightarrow> [] | Some a \<Rightarrow> a")
      case Nil
      with Resolved assms show ?thesis
        by (simp add: checkLiquidations_def after_fetch_def proceed_def)
    next
      case (Cons c cs)
      show ?thesis
      proof (cases c)
        case JNull
        with Cons Resolved assms show ?thesis
          by (simp add: checkLiquidations_def after_fetch_def proceed_def split: option.splits)
      next
        case (Candle l sh)
        let ?s = "globals p\<lparr>lastLongLiq := parseFloat (or_zero l),
                     lastShortLiq := parseFloat (or_zero sh)\<rparr>"
        show ?thesis
        proof (cases "long_side ?s")
          case None
          note L = None
          show ?thesis
          proof (cases "short_side ?s")
            case None
            with L Candle Cons Resolved assms show ?thesis
              by (simp add: checkLiquidations_def after_fetch_def proceed_def from_long_def
                  from_short_def check_long_def check_short_def)
          next
            case (Some m)
            with L Candle Cons Resolved assms i show ?thesis
              by (simp add: checkLiquidations_def after_fetch_def proceed_def from_long_def
                  from_short_def check_long_def check_short_def run_at_def after_short_def)
          qed
        next
          case (Some m)
          note L = Some
          show ?thesis
          proof (cases "short_side (long_sent (send m) ?s)")
            case None
            with L Candle Cons Resolved assms i show ?thesis
              by (simp add: checkLiquidations_def after_fetch_def proceed_def from_long_def
                  from_short_def check_long_def check_short_def run_at_def after_long_def)
          next
            case (Some m')
            with L Candle Cons Resolved assms i show ?thesis
              by (simp add: checkLiquidations_def after_fetch_def proceed_def from_long_def
                  from_short_def check_long_def check_short_def run_at_def after_long_def
                  after_short_def)
          qed
        qed
      qed
    qed
  qed
qed

text \<open>
  No segment touches the timer: the process stays on schedule whatever the order of the
  events.
\<close>

lemma segment_frame:
  "intervalId (fst (after_fetch f rc s)) = intervalId s"
  "timers (fst (after_fetch f rc s)) = timers s"
  "pollingIntervalMs (fst (after_fetch f rc s)) = pollingIntervalMs s"
  "intervalId (fst (after_long b s)) = intervalId s"
  "timers (fst (after_long b s)) = timers s"
  "pollingIntervalMs (fst (after_long b s)) = pollingIntervalMs s"
  "intervalId (fst (after_short b s)) = intervalId s"
  "timers (fst (after_short b s)) = timers s"
  "pollingIntervalMs (fst (after_short b s)) = pollingIntervalMs s"
  by (simp_all add: after_fetch_def after_long_def after_short_def from_long_def from_short_def
      long_sent_def short_sent_def Let_def split: fetch_result.splits option.splits list.splits
      candle.splits)

lemma globals_proceed: "globals (proceed i seg p) = fst seg"
  by (simp add: proceed_def split: prod.splits)

lemma step_on_schedule:
  assumes "step e p = Some p'" "on_schedule (globals p)"
  shows "on_schedule (globals p')"
proof (cases e)
  case Tick
  with assms show ?thesis by (auto split: if_splits)
next
  case (Timeout n)
  with assms show ?thesis by (auto split: if_splits)
next
  case (Settled i f)
  with assms show ?thesis
    by (auto simp: globals_proceed on_schedule_def segment_frame
        split: option.splits waiting.splits)
next
  case (Delivered i b)
  with assms show ?thesis
    by (auto simp: globals_proceed on_schedule_def segment_frame
        split: option.splits waiting.splits)
next
  case (Post b)
  with assms show ?thesis by (auto simp: on_schedule_control)
qed

lemma exec_on_schedule:
  "exec es p = Some p' \<Longrightarrow> on_schedule (globals p) \<Longrightarrow> on_schedule (globals p')"
proof (induction es arbitrary: p)
  case Nil
  then show ?case by simp
next
  case (Cons e es)
  then show ?case by (auto simp: step_on_schedule split: option.splits)
qed

lemma every_order_on_schedule: "exec es loaded = Some p \<Longrightarrow> on_schedule (globals p)"
  using exec_on_schedule [of es loaded p] by (simp add: loaded_def on_schedule_startup)

text \<open>
  The states that runs reach when nothing interrupts them are states of the process:
  the events are taken in the order in which such a run has them.
\<close>

lemma exec_append:
  "exec (es @ es') p = (case exec es p of None \<Rightarrow> None | Some p' \<Rightarrow> exec es' p')"
  by (induction es arbitrary: p) (simp_all split: option.splits)

lemma reachable_by_events:
  "reachable s \<Longrightarrow> \<exists>es p. exec es loaded = Some p \<and> globals p = s"
proof (induction rule: reachable.induct)
  case start
  have "exec [] loaded = Some loaded \<and> globals loaded = startup" by (simp add: loaded_def)
  then show ?case by blast
next
  case (tick s fetched send retryCount)
  then obtain es p where p: "exec es loaded = Some p" "globals p = s" by blast
  let ?i = "length (runs p)"
  let ?p1 = "p\<lparr>runs := runs p @ [Some (Request 0)]\<rparr>"
  let ?ans = "map (\<lambda>m. Delivered ?i (send m)) (sent (snd (checkLiquidations fetched send 0 s)))"
  from every_order_on_schedule [OF p(1)] have "timers (globals p) \<noteq> []"
    by (auto simp: on_schedule_def)
  then have t: "step Tick p = Some ?p1" by simp
  have w: "run_at ?i ?p1 = Some (Request 0)" by (simp add: run_at_def)
  from run_alone [OF w, of fetched send] p(2)
  obtain p2 where p2: "exec (Settled ?i fetched # ?ans) ?p1 = Some p2"
      "globals p2 = fst (checkLiquidations fetched send 0 s)"
    by simp
  have "exec (es @ Tick # Settled ?i fetched # ?ans) loaded = Some p2"
    using p(1) t p2(1) by (simp add: exec_append)
  moreover have "globals p2 = fst (checkLiquidations fetched send retryCount s)"
    using p2(2) run_state_any_count(1) [of fetched send retryCount s] by simp
  ultimately show ?case by blast
next
  case (control s b)
  then obtain es p where p: "exec es loaded = Some p" "globals p = s" by blast
  have "exec (es @ [Post b]) loaded = Some (p\<lparr>globals := fst (set_params b (globals p))\<rparr>)"
    using p(1) by (simp add: exec_append)
  with p(2) show ?case by force
qed

text \<open>
  The long side is decided in the segment that stores the sample, so it follows the
  value the run fetched in every order of events.
\<close>

lemma first_segment_long_side:
  "long_message (parseFloat (or_zero lf)) \<in>
      set (sent (fst (snd (after_fetch (Resolved (Some (Candle lf sf # cs))) rc s)))) \<longleftrightarrow>
    js_gt (parseFloat (or_zero lf)) (longThreshold s) \<and>
    (lastLongAlertValue s = None \<or>
     (\<exists>l. lastLongAlertValue s = Some l \<and> parseFloat (or_zero lf) \<noteq> l))"
  using long_short_distinct [of "parseFloat (or_zero lf)" "parseFloat (or_zero sf)"]
  by (cases "lastLongAlertValue s")
     (auto simp: after_fetch_def from_long_def from_short_def long_side_def short_side_def
        Let_def strict_neq_under_gt split: option.splits)

lemma alone_6000000:
  "lastLongAlertValue (fst (checkLiquidations long_6000000 accepts_all 0 startup)) =
     Some (Fin 6000000)"
  by (simp add: long_6000000_def sample_long_memory parse_6000000 startup_fields js_gt_def
      accepts_all_def)

section \<open>The texts of the alerts\<close>

lemma long_message_6000000:
  "long_message (Fin 6000000) =
     ''CG LONG Liquidations'' @ [CHR 0x0A] @
     ''BTCUSDT.P Long Liquidations: $6,000,000.00'' @ [CHR 0x0A] @
     ''($6M)'' @ [CHR 0x0A, CHR 0x0A] @
     [CHR 0xC2, CHR 0xA9] @ '' 2025 VORFX | All rights reserved.''"
  unfolding src_let by (simp add: fmt_eval attribution_def)

lemma long_message_7250000:
  "long_message (Fin 7250000) =
     ''CG LONG Liquidations'' @ [CHR 0x0A] @
     ''BTCUSDT.P Long Liquidations: $7,250,000.00'' @ [CHR 0x0A] @
     ''($7.25M)'' @ [CHR 0x0A, CHR 0x0A] @
     [CHR 0xC2, CHR 0xA9] @ '' 2025 VORFX | All rights reserved.''"
  unfolding src_let by (simp add: fmt_eval attribution_def)

lemma long_message_8200000:
  "long_message (Fin 8200000) =
     ''CG LONG Liquidations'' @ [CHR 0x0A] @
     ''BTCUSDT.P Long Liquidations: $8,200,000.00'' @ [CHR 0x0A] @
     ''($8.19M)'' @ [CHR 0x0A, CHR 0x0A] @
     [CHR 0xC2, CHR 0xA9] @ '' 2025 VORFX | All rights reserved.''"
  unfolding src_let by (simp add: fmt_eval attribution_def)

lemma in_message_6000000:
  "sublist ''6,000,000.00'' (long_message (Fin 6000000))"
  "sublist ''6M'' (long_message (Fin 6000000))"
  "\<not> sublist ''6.0M'' (long_message (Fin 6000000))"
  unfolding long_message_6000000 by (simp_all add: sublist_code)

lemma in_message_7250000:
  "sublist ''7,250,000.00'' (long_message (Fin 7250000))"
  "sublist ''7.25M'' (long_message (Fin 7250000))"
  unfolding long_message_7250000 by (simp_all add: sublist_code)

section \<open>A run that nothing interrupts\<close>

text \<open>
  In a run that fetched a sample and that nothing interrupts, the long side sends its
  alert exactly when the long value is above the long threshold and the last alerted
  long value is absent or another value; the same for the short side. If a side's alert
  was sent and accepted, the next such run with the same value sends no alert for that
  side.
\<close>

lemma alone_edge_triggered:
  "(long_message (parseFloat (or_zero lf)) \<in>
      set (sent (snd (checkLiquidations (Resolved (Some (Candle lf sf # cs))) send rc s))) \<longleftrightarrow>
    js_gt (parseFloat (or_zero lf)) (longThreshold s) \<and>
    (lastLongAlertValue s = None \<or>
     (\<exists>l. lastLongAlertValue s = Some l \<and> parseFloat (or_zero lf) \<noteq> l))) \<and>
   (short_message (parseFloat (or_zero sf)) \<in>
      set (sent (snd (checkLiquidations (Resolved (Some (Candle lf sf # cs))) send rc s))) \<longleftrightarrow>
    js_gt (parseFloat (or_zero sf)) (shortThreshold s) \<and>
    (lastShortAlertValue s = None \<or>
     (\<exists>l. lastShortAlertValue s = Some l \<and> parseFloat (or_zero sf) \<noteq> l))) \<and>
   (long_message (parseFloat (or_zero lf)) \<in>
      set (sent (snd (checkLiquidations (Resolved (Some (Candle lf sf # cs))) send rc s))) \<and>
    send (long_message (parseFloat (or_zero lf))) \<and>
    parseFloat (or_zero lf') = parseFloat (or_zero lf) \<longrightarrow>
    long_message (parseFloat (or_zero lf)) \<notin>
      set (sent (snd (checkLiquidations (Resolved (Some (Candle lf' sf' # cs'))) send' rc'
        (fst (checkLiquidations (Resolved (Some (Candle lf sf # cs))) send rc s)))))) \<and>
   (short_message (parseFloat (or_zero sf)) \<in>
      set (sent (snd (checkLiquidations (Resolved (Some (Candle lf sf # cs))) send rc s))) \<and>
    send (short_message (parseFloat (or_zero sf))) \<and>
    parseFloat (or_zero sf') = parseFloat (or_zero sf) \<longrightarrow>
    short_message (parseFloat (or_zero sf)) \<notin>
      set (sent (snd (checkLiquidations (Resolved (Some (Candle lf' sf' # cs'))) send' rc'
        (fst (checkLiquidations (Resolved (Some (Candle lf sf # cs))) send rc s))))))"
proof -
  let ?v = "parseFloat (or_zero lf)" and ?w = "parseFloat (or_zero sf)"
  let ?run = "checkLiquidations (Resolved (Some (Candle lf sf # cs))) send rc s"
  let ?next = "checkLiquidations (Resolved (Some (Candle lf' sf' # cs'))) send' rc' (fst ?run)"
  have long_iff: "long_message ?v \<in> set (sent (snd ?run)) \<longleftrightarrow>
      js_gt ?v (longThreshold s) \<and>
      (lastLongAlertValue s = None \<or> (\<exists>l. lastLongAlertValue s = Some l \<and> ?v \<noteq> l))"
    by (cases "lastLongAlertValue s") (auto simp: sample_sent long_short_distinct)
  have short_iff: "short_message ?w \<in> set (sent (snd ?run)) \<longleftrightarrow>
      js_gt ?w (shortThreshold s) \<and>
      (lastShortAlertValue s = None \<or> (\<exists>l. lastShortAlertValue s = Some l \<and> ?w \<noteq> l))"
    using long_short_distinct [of ?v ?w]
    by (cases "lastShortAlertValue s") (auto simp: sample_sent)
  have long_once: "long_message ?v \<notin> set (sent (snd ?next))"
    if "long_message ?v \<in> set (sent (snd ?run))" "send (long_message ?v)"
       "parseFloat (or_zero lf') = ?v"
  proof -
    from that(1) have "js_gt ?v (longThreshold s) \<and> lastLongAlertValue s \<noteq> Some ?v"
      by (auto simp: sample_sent long_short_distinct split: if_splits)
    with that(2) have "lastLongAlertValue (fst ?run) = Some ?v"
      by (simp add: sample_long_memory)
    with that(3) show ?thesis
      by (auto simp: sample_sent long_short_distinct)
  qed
  have short_once: "short_message ?w \<notin> set (sent (snd ?next))"
    if "short_message ?w \<in> set (sent (snd ?run))" "send (short_message ?w)"
       "parseFloat (or_zero sf') = ?w"
  proof -
    from that(1) have "js_gt ?w (shortThreshold s) \<and> lastShortAlertValue s \<noteq> Some ?w"
      using long_short_distinct [of ?v ?w] by (auto simp: sample_sent split: if_splits)
    with that(2) have "lastShortAlertValue (fst ?run) = Some ?w"
      by (simp add: sample_short_memory)
    with that(3) show ?thesis
      using long_short_distinct [of "parseFloat (or_zero lf')" ?w] by (auto simp: sample_sent)
  qed
  show ?thesis using long_iff short_iff long_once short_once by blast
qed

lemma alone_edge_triggered_example:
  "long_message (Fin 6000000) \<in> set (sent (snd (checkLiquidations both_high accepts_all 0 startup))) \<and>
   short_message (Fin 12000000) \<in>
     set (sent (snd (checkLiquidations both_high accepts_all 0 startup))) \<and>
   accepts_all (long_message (Fin 6000000)) \<and> accepts_all (short_message (Fin 12000000)) \<and>
   long_message (Fin 6000000) \<notin> set (sent (snd (checkLiquidations both_high accepts_all 0 alerted))) \<and>
   short_message (Fin 12000000) \<notin>
     set (sent (snd (checkLiquidations both_high accepts_all 0 alerted)))"
  using alone_edge_triggered [where lf = "Str ''6000000''" and sf = "Str ''12000000''"
      and cs = "[]" and send = accepts_all and rc = 0 and s = startup
      and lf' = "Str ''6000000''" and sf' = "Str ''12000000''" and cs' = "[]"
      and send' = accepts_all and rc' = 0]
  by (simp add: both_high_def [symmetric] alerted_def [symmetric] both_high_sent
      parse_6000000 parse_12000000 accepts_all_def)

text \<open>
  When a side's alert is sent in a run that nothing interrupts, that side's last alerted
  value becomes the sent value if the messaging service accepts the message and stays
  as it was if not; after a refusal the next such run with the same value sends the
  alert again.
\<close>

lemma alone_memory_follows_delivery:
  "(long_message (parseFloat (or_zero lf)) \<in>
      set (sent (snd (checkLiquidations (Resolved (Some (Candle lf sf # cs))) send rc s))) \<longrightarrow>
    lastLongAlertValue (fst (checkLiquidations (Resolved (Some (Candle lf sf # cs))) send rc s)) =
      (if send (long_message (parseFloat (or_zero lf))) then Some (parseFloat (or_zero lf))
       else lastLongAlertValue s)) \<and>
   (short_message (parseFloat (or_zero sf)) \<in>
      set (sent (snd (checkLiquidations (Resolved (Some (Candle lf sf # cs))) send rc s))) \<longrightarrow>
    lastShortAlertValue (fst (checkLiquidations (Resolved (Some (Candle lf sf # cs))) send rc s)) =
      (if send (short_message (parseFloat (or_zero sf))) then Some (parseFloat (or_zero sf))
       else lastShortAlertValue s)) \<and>
   (long_message (parseFloat (or_zero lf)) \<in>
      set (sent (snd (checkLiquidations (Resolved (Some (Candle lf sf # cs))) send rc s))) \<and>
    \<not> send (long_message (parseFloat (or_zero lf))) \<and>
    parseFloat (or_zero lf') = parseFloat (or_zero lf) \<longrightarrow>
    long_message (parseFloat (or_zero lf)) \<in>
      set (sent (snd (checkLiquidations (Resolved (Some (Candle lf' sf' # cs'))) send' rc'
        (fst (checkLiquidations (Resolved (Some (Candle lf sf # cs))) send rc s)))))) \<and>
   (short_message (parseFloat (or_zero sf)) \<in>
      set (sent (snd (checkLiquidations (Resolved (Some (Candle lf sf # cs))) send rc s))) \<and>
    \<not> send (short_message (parseFloat (or_zero sf))) \<and>
    parseFloat (or_zero sf') = parseFloat (or_zero sf) \<longrightarrow>
    short_message (parseFloat (or_zero sf)) \<in>
      set (sent (snd (checkLiquidations (Resolved (Some (Candle lf' sf' # cs'))) send' rc'
        (fst (checkLiquidations (Resolved (Some (Candle lf sf # cs))) send rc s))))))"
proof -
  let ?v = "parseFloat (or_zero lf)" and ?w = "parseFloat (or_zero sf)"
  let ?run = "checkLiquidations (Resolved (Some (Candle lf sf # cs))) send rc s"
  let ?next = "checkLiquidations (Resolved (Some (Candle lf' sf' # cs'))) send' rc' (fst ?run)"
  have long_due: "js_gt ?v (longThreshold s) \<and> lastLongAlertValue s \<noteq> Some ?v"
    if "long_message ?v \<in> set (sent (snd ?run))"
    using that by (auto simp: sample_sent long_short_distinct split: if_splits)
  have short_due: "js_gt ?w (shortThreshold s) \<and> lastShortAlertValue s \<noteq> Some ?w"
    if "short_message ?w \<in> set (sent (snd ?run))"
    using that long_short_distinct [of ?v ?w] by (auto simp: sample_sent split: if_splits)
  have a: "lastLongAlertValue (fst ?run) =
      (if send (long_message ?v) then Some ?v else lastLongAlertValue s)"
    if "long_message ?v \<in> set (sent (snd ?run))"
    using long_due [OF that] by (simp add: sample_long_memory)
  have b: "lastShortAlertValue (fst ?run) =
      (if send (short_message ?w) then Some ?w else lastShortAlertValue s)"
    if "short_message ?w \<in> set (sent (snd ?run))"
    using short_due [OF that] by (simp add: sample_short_memory)
  have c: "long_message ?v \<in> set (sent (snd ?next))"
    if "long_message ?v \<in> set (sent (snd ?run))" "\<not> send (long_message ?v)"
       "parseFloat (or_zero lf') = ?v"
    using long_due [OF that(1)] a [OF that(1)] that(2,3)
    by (simp add: sample_sent run_frame)
  have d: "short_message ?w \<in> set (sent (snd ?next))"
    if "short_message ?w \<in> set (sent (snd ?run))" "\<not> send (short_message ?w)"
       "parseFloat (or_zero sf') = ?w"
    using short_due [OF that(1)] b [OF that(1)] that(2,3)
    by (simp add: sample_sent run_frame)
  show ?thesis using a b c d by blast
qed

lemma alone_memory_follows_delivery_example:
  "long_message (Fin 6000000) \<in>
     set (sent (snd (checkLiquidations both_high accepts_none 0 startup))) \<and>
   short_message (Fin 12000000) \<in>
     set (sent (snd (checkLiquidations both_high accepts_none 0 startup))) \<and>
   \<not> accepts_none (long_message (Fin 6000000)) \<and>
   \<not> accepts_none (short_message (Fin 12000000)) \<and>
   lastLongAlertValue (fst (checkLiquidations both_high accepts_none 0 startup)) = None \<and>
   lastShortAlertValue (fst (checkLiquidations both_high accepts_none 0 startup)) = None \<and>
   long_message (Fin 6000000) \<in>
     set (sent (snd (checkLiquidations both_high accepts_all 0
       (fst (checkLiquidations both_high accepts_none 0 startup))))) \<and>
   short_message (Fin 12000000) \<in>
     set (sent (snd (checkLiquidations both_high accepts_all 0
       (fst (checkLiquidations both_high accepts_none 0 startup)))))"
  using alone_memory_follows_delivery [where lf = "Str ''6000000''" and sf = "Str ''12000000''"
      and cs = "[]" and send = accepts_none and rc = 0 and s = startup
      and lf' = "Str ''6000000''" and sf' = "Str ''12000000''" and cs' = "[]"
      and send' = accepts_all and rc' = 0]
  by (simp add: both_high_def [symmetric] both_high_sent parse_6000000 parse_12000000
      accepts_none_def startup_fields)

section \<open>The claims\<close>

text \<open>
  C1. A run that fetched a sample is to send a side's alert exactly when the value it
  fetched for that side is above the side's threshold and is not the last alerted value
  of that side. The code decides the short side after the \<open>await\<close> of the long side's
  send, on \<open>lastShortLiq\<close>, \<open>shortThreshold\<close> and \<open>lastShortAlertValue\<close> as they are
  then. Here the first run fetches 6,000,000 and 12,000,000 under the default
  thresholds, with no value alerted yet, and sends the long alert; before the messaging
  service answers, the next tick's run fetches 6,000,000 and no short value. When the
  first run goes on it finds 0 in \<open>lastShortLiq\<close> and sends no short alert, although the
  short value it fetched is above the short threshold and no short value was ever
  alerted. The same run sends both alerts when nothing interrupts it.
\<close>

theorem overlapping_run_drops_short_alert:
  "\<exists>q p. exec [Tick, Settled 0 both_high] loaded = Some q \<and>
     run_at 0 q = Some (LongSend (long_message (Fin 6000000))) \<and>
     lastShortLiq (globals q) = Fin 12000000 \<and>
     js_gt (lastShortLiq (globals q)) (shortThreshold (globals q)) \<and>
     lastShortAlertValue (globals q) = None \<and>
     exec [Tick, Settled 1 long_6000000, Delivered 0 True, Delivered 1 True] q = Some p \<and>
     runs p = [None, None] \<and>
     outbox p = [(0, long_message (Fin 6000000)), (1, long_message (Fin 6000000))] \<and>
     (0, short_message (Fin 12000000)) \<notin> set (outbox p) \<and>
     shortThreshold (globals p) = shortThreshold (globals q) \<and>
     lastShortAlertValue (globals p) = None \<and>
     sent (snd (checkLiquidations both_high accepts_all 0 startup)) =
       [long_message (Fin 6000000), short_message (Fin 12000000)]"
proof -
  have overlapped: "\<exists>q p. exec [Tick, Settled 0 both_high] loaded = Some q \<and>
     run_at 0 q = Some (LongSend (long_message (Fin 6000000))) \<and>
     lastShortLiq (globals q) = Fin 12000000 \<and>
     js_gt (lastShortLiq (globals q)) (shortThreshold (globals q)) \<and>
     lastShortAlertValue (globals q) = None \<and>
     exec [Tick, Settled 1 long_6000000, Delivered 0 True, Delivered 1 True] q = Some p \<and>
     runs p = [None, None] \<and>
     outbox p = [(0, long_message (Fin 6000000)), (1, long_message (Fin 6000000))] \<and>
     (0, short_message (Fin 12000000)) \<notin> set (outbox p) \<and>
     shortThreshold (globals p) = shortThreshold (globals q) \<and>
     lastShortAlertValue (globals p) = None"
    using long_short_distinct [of "Fin 6000000" "Fin 12000000"]
    by (simp add: loaded_def startup_fields proc_eval both_high_def long_6000000_def
        parse_6000000 parse_12000000 parse_absent)
  have alone: "sent (snd (checkLiquidations both_high accepts_all 0 startup)) =
       [long_message (Fin 6000000), short_message (Fin 12000000)]"
    by (rule both_high_sent)
  from overlapped alone show ?thesis by blast
qed

text \<open>
  C2. When a side's alert is sent, that side's last alerted value is to become the sent
  value if the messaging service accepts the message, and to stay as it was if not, so
  that the same value is sent again by the next run. The code assigns
  \<open>lastLongAlertValue = lastLongLiq\<close> after the \<open>await\<close>, reading the variable as it is
  then. Here the first run sends the alert for 6,000,000; before the messaging service
  answers, the next tick's run fetches 7,000,000 and sends its alert. The service
  accepts the first message: the last alerted value becomes 7,000,000, not the
  6,000,000 that was sent. It refuses the second message; the run after that fetches
  7,000,000 again and sends nothing, so the alert for 7,000,000 is never delivered.
  When nothing interrupts it, the first run stores 6,000,000.
\<close>

theorem overlapping_run_moves_alert_memory:
  "\<exists>r p q. exec [Tick, Settled 0 long_6000000, Tick, Settled 1 long_7000000,
                Delivered 0 True] loaded = Some r \<and>
     outbox r = [(0, long_message (Fin 6000000)), (1, long_message (Fin 7000000))] \<and>
     runs r = [None, Some (LongSend (long_message (Fin 7000000)))] \<and>
     lastLongAlertValue (globals r) = Some (Fin 7000000) \<and>
     exec [Delivered 1 False] r = Some p \<and>
     lastLongAlertValue (globals p) = Some (Fin 7000000) \<and>
     exec [Tick, Settled 2 long_7000000] p = Some q \<and>
     runs q = [None, None, None] \<and>
     outbox q = outbox r \<and>
     lastLongAlertValue (fst (checkLiquidations long_6000000 accepts_all 0 startup)) =
       Some (Fin 6000000)"
proof -
  have overlapped: "\<exists>r p q. exec [Tick, Settled 0 long_6000000, Tick, Settled 1 long_7000000,
                Delivered 0 True] loaded = Some r \<and>
     outbox r = [(0, long_message (Fin 6000000)), (1, long_message (Fin 7000000))] \<and>
     runs r = [None, Some (LongSend (long_message (Fin 7000000)))] \<and>
     lastLongAlertValue (globals r) = Some (Fin 7000000) \<and>
     exec [Delivered 1 False] r = Some p \<and>
     lastLongAlertValue (globals p) = Some (Fin 7000000) \<and>
     exec [Tick, Settled 2 long_7000000] p = Some q \<and>
     runs q = [None, None, None] \<and>
     outbox q = outbox r"
    by (simp add: loaded_def startup_fields proc_eval long_7000000_def long_6000000_def
        parse_6000000 parse_sample_7000000 parse_absent)
  from overlapped alone_6000000 show ?thesis by blast
qed

text \<open>
  C3. The compact form of a value of at least 1,000,000 is meant to be the millions
  truncated to two decimals, with an M. \<open>truncToDecimals\<close> multiplies by 100 before
  it takes the floor, in binary64: for 8,200,000 the quotient is the binary64 value
  nearest to 8.2, which is below 8.2, its product with 100 rounds to the value next
  below 820, the floor is 819, and the text is 8.19M, where the millions are 8.2 and
  their truncation is 8.2. The alert that the run at startup sends for a long value of
  8,200,000 gives the value as 8,200,000.00 and as 8.19M.
\<close>

theorem compact_format_at_8200000:
  "formatShortValue (Fin 8200000) = ''8.19M'' \<and>
   js_div (Fin 8200000) (Fin 1000000) = Fin (2308094809027379 / 281474976710656) \<and>
   js_mul (Fin (2308094809027379 / 281474976710656)) (Fin 100) =
     Fin (7212796278210559 / 8796093022208) \<and>
   Math_floor (Fin (7212796278210559 / 8796093022208)) = Fin 819 \<and>
   of_int \<lfloor>(8200000 / 1000000 :: rat) * 10 ^ 2\<rfloor> / 10 ^ 2 = (820 / 100 :: rat) \<and>
   sent (snd (checkLiquidations long_8200000 accepts_all 0 startup)) =
     [long_message (Fin 8200000)] \<and>
   sublist ''$8,200,000.00'' (long_message (Fin 8200000)) \<and>
   sublist ''($8.19M)'' (long_message (Fin 8200000))"
proof -
  have a: "formatShortValue (Fin 8200000) = ''8.19M''"
    unfolding src_let by (simp add: fmt_eval)
  have b: "js_div (Fin 8200000) (Fin 1000000) = Fin (2308094809027379 / 281474976710656)"
    by (simp add: js_div_def num_eval)
  have c: "js_mul (Fin (2308094809027379 / 281474976710656)) (Fin 100) =
      Fin (7212796278210559 / 8796093022208)"
    by (simp add: js_mul_def num_eval)
  have d: "Math_floor (Fin (7212796278210559 / 8796093022208)) = Fin 819"
    by (simp add: Math_floor_def num_eval)
  have e: "of_int \<lfloor>(8200000 / 1000000 :: rat) * 10 ^ 2\<rfloor> / 10 ^ 2 = (820 / 100 :: rat)"
    by (simp add: num_eval)
  have f: "sent (snd (checkLiquidations long_8200000 accepts_all 0 startup)) =
      [long_message (Fin 8200000)]"
    by (simp add: long_8200000_def sample_sent parse_8200000 parse_absent startup_fields
        js_gt_def)
  have g: "sublist ''$8,200,000.00'' (long_message (Fin 8200000))"
    "sublist ''($8.19M)'' (long_message (Fin 8200000))"
    unfolding long_message_8200000 by (simp_all add: sublist_code)
  show ?thesis using a b c d e f g by simp
qed

text \<open>
  The examples of the specification: 2,345,678 gives 2.34M, 15,999 gives 15K, and the
  binary64 value of 999.995 is below 1000 and is written 1,000.00.
\<close>

lemma compact_format_examples:
  "formatShortValue (Fin 2345678) = ''2.34M'' \<and>
   formatShortValue (Fin 15999) = ''15K'' \<and>
   parseFloat (Str ''999.995'') = Fin (8796049041742889 / 8796093022208) \<and>
   \<not> js_ge (Fin (8796049041742889 / 8796093022208)) (Fin 1000) \<and>
   formatShortValue (Fin (8796049041742889 / 8796093022208)) = ''1,000.00'' \<and>
   formatWithCommasAndDot (Fin (8796049041742889 / 8796093022208)) = ''1,000.00''"
proof -
  have a: "formatShortValue (Fin 2345678) = ''2.34M''"
    unfolding src_let by (simp add: fmt_eval)
  have b: "formatShortValue (Fin 15999) = ''15K''"
    unfolding src_let by (simp add: fmt_eval)
  have c: "parseFloat (Str ''999.995'') = Fin (8796049041742889 / 8796093022208)"
    by (simp add: parse_eval)
  have d: "\<not> js_ge (Fin (8796049041742889 / 8796093022208)) (Fin 1000)"
    by (simp add: js_ge_def)
  have e: "formatShortValue (Fin (8796049041742889 / 8796093022208)) = ''1,000.00''"
    unfolding src_let by (simp add: fmt_eval)
  have f: "formatWithCommasAndDot (Fin (8796049041742889 / 8796093022208)) = ''1,000.00''"
    by (simp add: fmt_eval)
  show ?thesis using a b c d e f by simp
qed

text \<open>
  C4, as the specification states it: the first alert would contain 6.0M. It does not:
  the run at startup on a long value of 6,000,000 sends one message, and the compact
  form in it is 6M.
\<close>

theorem scenario_text_6_0M_counterexample:
  "longThreshold startup = Fin 5000000 \<and> lastLongAlertValue startup = None \<and>
   sent (snd (checkLiquidations long_6000000 accepts_all 0 startup)) =
     [long_message (Fin 6000000)] \<and>
   \<not> sublist ''6.0M'' (long_message (Fin 6000000))"
  by (simp add: long_6000000_def sample_sent parse_6000000 parse_absent startup_fields
      js_gt_def in_message_6000000)

text \<open>
  C4, amended. With a long threshold of 5,000,000, no long value alerted yet and a quiet
  short side: a run that fetches a long value of 6,000,000 sends exactly one message,
  which contains 6,000,000.00 and 6M; if the service accepts it, the next run with
  6,000,000 sends nothing; the run after that, with 7,250,000, sends exactly one
  message, which contains 7,250,000.00 and 7.25M.
\<close>

theorem scenario_three_runs:
  assumes thr: "longThreshold s = Fin 5000000"
    and mem: "lastLongAlertValue s = None"
    and v1: "parseFloat (or_zero lf1) = Fin 6000000"
    and v2: "parseFloat (or_zero lf2) = Fin 6000000"
    and v3: "parseFloat (or_zero lf3) = Fin 7250000"
    and q1: "\<not> js_gt (parseFloat (or_zero sf1)) (shortThreshold s)"
    and q2: "\<not> js_gt (parseFloat (or_zero sf2)) (shortThreshold s)"
    and q3: "\<not> js_gt (parseFloat (or_zero sf3)) (shortThreshold s)"
    and ok: "send1 (long_message (Fin 6000000))"
    and r1: "checkLiquidations (Resolved (Some (Candle lf1 sf1 # cs1))) send1 rc1 s = (s1, e1)"
    and r2: "checkLiquidations (Resolved (Some (Candle lf2 sf2 # cs2))) send2 rc2 s1 = (s2, e2)"
    and r3: "checkLiquidations (Resolved (Some (Candle lf3 sf3 # cs3))) send3 rc3 s2 = (s3, e3)"
  shows "sent e1 = [long_message (Fin 6000000)] \<and>
         sublist ''6,000,000.00'' (long_message (Fin 6000000)) \<and>
         sublist ''6M'' (long_message (Fin 6000000)) \<and>
         sent e2 = [] \<and>
         sent e3 = [long_message (Fin 7250000)] \<and>
         sublist ''7,250,000.00'' (long_message (Fin 7250000)) \<and>
         sublist ''7.25M'' (long_message (Fin 7250000))"
proof -
  have gt: "js_gt (Fin 6000000) (Fin 5000000)" "js_gt (Fin 7250000) (Fin 5000000)"
    by (simp_all add: js_gt_def)
  from r1 have s1: "s1 = fst (checkLiquidations (Resolved (Some (Candle lf1 sf1 # cs1))) send1 rc1 s)"
    and e1: "e1 = snd (checkLiquidations (Resolved (Some (Candle lf1 sf1 # cs1))) send1 rc1 s)"
    by simp_all
  from r2 have s2: "s2 = fst (checkLiquidations (Resolved (Some (Candle lf2 sf2 # cs2))) send2 rc2 s1)"
    and e2: "e2 = snd (checkLiquidations (Resolved (Some (Candle lf2 sf2 # cs2))) send2 rc2 s1)"
    by simp_all
  from r3 have e3: "e3 = snd (checkLiquidations (Resolved (Some (Candle lf3 sf3 # cs3))) send3 rc3 s2)"
    by simp
  have first: "sent e1 = [long_message (Fin 6000000)]"
    by (simp add: e1 sample_sent v1 thr mem gt q1)
  have m1: "lastLongAlertValue s1 = Some (Fin 6000000)"
    by (simp add: s1 sample_long_memory v1 thr mem gt ok)
  have t1: "longThreshold s1 = Fin 5000000" "shortThreshold s1 = shortThreshold s"
    by (simp_all add: s1 run_frame thr)
  have second: "sent e2 = []"
    by (simp add: e2 sample_sent v2 m1 t1 q2)
  have m2: "lastLongAlertValue s2 = Some (Fin 6000000)"
    by (simp add: s2 sample_long_memory v2 m1)
  have t2: "longThreshold s2 = Fin 5000000" "shortThreshold s2 = shortThreshold s"
    by (simp_all add: s2 run_frame t1)
  have third: "sent e3 = [long_message (Fin 7250000)]"
    by (simp add: e3 sample_sent v3 m2 t2 gt q3)
  show ?thesis
    using first second third by (simp add: in_message_6000000 in_message_7250000)
qed

theorem scenario_three_runs_witness:
  "longThreshold startup = Fin 5000000 \<and> lastLongAlertValue startup = None \<and>
   parseFloat (or_zero (Str ''6000000'')) = Fin 6000000 \<and>
   parseFloat (or_zero (Str ''7250000'')) = Fin 7250000 \<and>
   \<not> js_gt (parseFloat (or_zero Undefined)) (shortThreshold startup) \<and>
   accepts_all (long_message (Fin 6000000)) \<and>
   sent (snd (checkLiquidations long_6000000 accepts_all 0 startup)) =
     [long_message (Fin 6000000)] \<and>
   sublist ''6M'' (long_message (Fin 6000000)) \<and>
   sent (snd (checkLiquidations long_6000000 accepts_all 0
     (fst (checkLiquidations long_6000000 accepts_all 0 startup)))) = [] \<and>
   sent (snd (checkLiquidations long_7250000 accepts_all 0
     (fst (checkLiquidations long_6000000 accepts_all 0
       (fst (checkLiquidations long_6000000 accepts_all 0 startup)))))) =
     [long_message (Fin 7250000)] \<and>
   sublist ''7.25M'' (long_message (Fin 7250000))"
proof -
  let ?r1 = "checkLiquidations long_6000000 accepts_all 0 startup"
  let ?r2 = "checkLiquidations long_6000000 accepts_all 0 (fst ?r1)"
  let ?r3 = "checkLiquidations long_7250000 accepts_all 0 (fst ?r2)"
  have quiet: "\<not> js_gt (parseFloat (or_zero Undefined)) (shortThreshold startup)"
    by (simp add: parse_absent startup_fields js_gt_def)
  have ok: "accepts_all (long_message (Fin 6000000))"
    by (simp add: accepts_all_def)
  have r1: "checkLiquidations (Resolved (Some (Candle (Str ''6000000'') Undefined # [])))
      accepts_all 0 startup = (fst ?r1, snd ?r1)"
    by (simp add: long_6000000_def)
  have r2: "checkLiquidations (Resolved (Some (Candle (Str ''6000000'') Undefined # [])))
      accepts_all 0 (fst ?r1) = (fst ?r2, snd ?r2)"
    by (simp add: long_6000000_def)
  have r3: "checkLiquidations (Resolved (Some (Candle (Str ''7250000'') Undefined # [])))
      accepts_all 0 (fst ?r2) = (fst ?r3, snd ?r3)"
    by (simp add: long_7250000_def)
  from scenario_three_runs [OF startup_fields(1) startup_fields(6) parse_6000000 parse_6000000
      parse_7250000 quiet quiet quiet ok r1 r2 r3]
  show ?thesis
    using quiet by (simp add: startup_fields ok parse_6000000 parse_7250000)
qed

text \<open>
  C5. A retry is scheduled exactly when the request failed with a transient error and
  the retry count is below 3; it is then one retry, 5000 ms later, of
  \<open>checkLiquidations\<close> itself with the count incremented, so what follows such a
  failure is what the next attempt does. A run and its retries are at most four
  attempts, and after four transient failures in a row there have been three retries
  and the fourth failure schedules nothing.
\<close>

theorem retry_policy:
  "(retry (snd (checkLiquidations fetched send rc s)) \<noteq> None \<longleftrightarrow>
      (\<exists>c. fetched = Rejected (Some c) \<and> transient c) \<and> rc < 3) \<and>
   (retry (snd (checkLiquidations fetched send rc s)) \<noteq> None \<longrightarrow>
      retry (snd (checkLiquidations fetched send rc s)) = Some (rc + 1, 5000)) \<and>
   (transient c \<and> rc < 3 \<longrightarrow>
      attempts ((Rejected (Some c), f) # es) rc s =
        (fst (attempts es (rc + 1) s), fst (snd (attempts es (rc + 1) s)),
         rc # snd (snd (attempts es (rc + 1) s)))) \<and>
   length (snd (snd (attempts es 0 s))) \<le> 4 \<and>
   (transient c1 \<and> transient c2 \<and> transient c3 \<and> transient c4 \<longrightarrow>
      attempts ((Rejected (Some c1), f1) # (Rejected (Some c2), f2) # (Rejected (Some c3), f3) #
                (Rejected (Some c4), f4) # rest) 0 s = (s, [], [0, 1, 2, 3]) \<and>
      retry (snd (checkLiquidations (Rejected (Some c4)) f4 3 s)) = None)"
proof -
  have a: "retry (snd (checkLiquidations fetched send rc s)) \<noteq> None \<longleftrightarrow>
      (\<exists>c. fetched = Rejected (Some c) \<and> transient c) \<and> rc < 3"
    unfolding retry_of_run transient_def by (cases fetched) (auto simp: on_error_def)
  have b: "retry (snd (checkLiquidations fetched send rc s)) \<noteq> None \<longrightarrow>
      retry (snd (checkLiquidations fetched send rc s)) = Some (rc + 1, 5000)"
    by (cases fetched) (auto simp: retry_of_run on_error_def)
  have c: "length (snd (snd (attempts es 0 s))) \<le> 4"
    using attempts_bounded [of es 0 s] by simp
  have d: "transient c1 \<and> transient c2 \<and> transient c3 \<and> transient c4 \<longrightarrow>
      attempts ((Rejected (Some c1), f1) # (Rejected (Some c2), f2) # (Rejected (Some c3), f3) #
                (Rejected (Some c4), f4) # rest) 0 s = (s, [], [0, 1, 2, 3]) \<and>
      retry (snd (checkLiquidations (Rejected (Some c4)) f4 3 s)) = None"
    by (simp add: transient_run)
  have e: "transient c \<and> rc < 3 \<longrightarrow>
      attempts ((Rejected (Some c), f) # es) rc s =
        (fst (attempts es (rc + 1) s), fst (snd (attempts es (rc + 1) s)),
         rc # snd (snd (attempts es (rc + 1) s)))"
    by (simp add: transient_run split_beta)
  show ?thesis using a b c d e by blast
qed

theorem retry_policy_witness:
  "transient ''ECONNRESET'' \<and> transient ''ETIMEDOUT'' \<and>
   retry (snd (checkLiquidations (Rejected (Some ''ECONNRESET'')) accepts_all 0 startup)) =
     Some (1, 5000) \<and>
   attempts [(Rejected (Some ''ECONNRESET''), accepts_all), (both_high, accepts_all)] 0 startup =
     (alerted, [long_message (Fin 6000000), short_message (Fin 12000000)], [0, 1]) \<and>
   attempts [(Rejected (Some ''ECONNRESET''), accepts_all),
             (Rejected (Some ''ETIMEDOUT''), accepts_all),
             (Rejected (Some ''ECONNRESET''), accepts_all),
             (Rejected (Some ''ETIMEDOUT''), accepts_all)] 0 startup =
     (startup, [], [0, 1, 2, 3])"
proof -
  have t: "transient ''ECONNRESET''" "transient ''ETIMEDOUT''"
    by (simp_all add: transient_def)
  have n: "attempts [(both_high, accepts_all)] (0 + 1) startup =
      (alerted, [long_message (Fin 6000000), short_message (Fin 12000000)], [1])"
    by (simp add: both_high_run)
  note rp = retry_policy [where fetched = "Rejected (Some ''ECONNRESET'')" and send = accepts_all
      and rc = 0 and s = startup and es = "[(both_high, accepts_all)]"
      and c = "''ECONNRESET''" and f = accepts_all
      and ?c1.0 = "''ECONNRESET''"
      and ?c2.0 = "''ETIMEDOUT''" and ?c3.0 = "''ECONNRESET''" and ?c4.0 = "''ETIMEDOUT''"
      and ?f1.0 = accepts_all and ?f2.0 = accepts_all and ?f3.0 = accepts_all
      and ?f4.0 = accepts_all and rest = "[]"]
  note c1 = rp [THEN conjunct1]
    and c2 = rp [THEN conjunct2, THEN conjunct1]
    and c3 = rp [THEN conjunct2, THEN conjunct2, THEN conjunct1]
    and c5 = rp [THEN conjunct2, THEN conjunct2, THEN conjunct2, THEN conjunct2]
  have some: "retry (snd (checkLiquidations (Rejected (Some ''ECONNRESET'')) accepts_all 0 startup))
      \<noteq> None"
    using c1 t by simp
  with c2 have a: "retry (snd (checkLiquidations (Rejected (Some ''ECONNRESET'')) accepts_all 0
      startup)) = Some (1, 5000)"
    by simp
  from c3 t have "attempts [(Rejected (Some ''ECONNRESET''), accepts_all), (both_high, accepts_all)]
      0 startup =
        (fst (attempts [(both_high, accepts_all)] (0 + 1) startup),
         fst (snd (attempts [(both_high, accepts_all)] (0 + 1) startup)),
         0 # snd (snd (attempts [(both_high, accepts_all)] (0 + 1) startup)))"
    by (simp del: attempts.simps)
  then have b: "attempts [(Rejected (Some ''ECONNRESET''), accepts_all), (both_high, accepts_all)]
      0 startup = (alerted, [long_message (Fin 6000000), short_message (Fin 12000000)], [0, 1])"
    by (simp only: n fst_conv snd_conv)
  from c5 t have c: "attempts [(Rejected (Some ''ECONNRESET''), accepts_all),
             (Rejected (Some ''ETIMEDOUT''), accepts_all),
             (Rejected (Some ''ECONNRESET''), accepts_all),
             (Rejected (Some ''ETIMEDOUT''), accepts_all)] 0 startup =
     (startup, [], [0, 1, 2, 3])"
    by (simp del: attempts.simps)
  from t a b c show ?thesis by blast
qed

text \<open>
  C6. A run whose request fails leaves the whole state as it was and sends nothing. The
  two sample variables change only in a run whose response holds a first element; that
  run sets both to the values it read, and what it sends is about those values.
\<close>

theorem failed_fetch_leaves_state:
  "fst (checkLiquidations (Rejected code) send rc s) = s \<and>
   sent (snd (checkLiquidations (Rejected code) send rc s)) = [] \<and>
   ((lastLongLiq (fst (checkLiquidations fetched send rc s)) \<noteq> lastLongLiq s \<or>
     lastShortLiq (fst (checkLiquidations fetched send rc s)) \<noteq> lastShortLiq s) \<longrightarrow>
      (\<exists>lf sf cs. fetched = Resolved (Some (Candle lf sf # cs)))) \<and>
   lastLongLiq (fst (checkLiquidations (Resolved (Some (Candle lf sf # cs))) send rc s)) =
      parseFloat (or_zero lf) \<and>
   lastShortLiq (fst (checkLiquidations (Resolved (Some (Candle lf sf # cs))) send rc s)) =
      parseFloat (or_zero sf) \<and>
   set (sent (snd (checkLiquidations (Resolved (Some (Candle lf sf # cs))) send rc s))) \<subseteq>
      {long_message (parseFloat (or_zero lf)), short_message (parseFloat (or_zero sf))}"
proof -
  have a: "fst (checkLiquidations (Rejected code) send rc s) = s"
    and b: "sent (snd (checkLiquidations (Rejected code) send rc s)) = []"
    by (simp_all add: checkLiquidations_def)
  have c: "(lastLongLiq (fst (checkLiquidations fetched send rc s)) \<noteq> lastLongLiq s \<or>
     lastShortLiq (fst (checkLiquidations fetched send rc s)) \<noteq> lastShortLiq s) \<longrightarrow>
      (\<exists>lf sf cs. fetched = Resolved (Some (Candle lf sf # cs)))"
  proof (cases "\<exists>lf sf cs. fetched = Resolved (Some (Candle lf sf # cs))")
    case True
    then show ?thesis by simp
  next
    case False
    then show ?thesis by (simp add: no_sample_no_change)
  qed
  have d: "set (sent (snd (checkLiquidations (Resolved (Some (Candle lf sf # cs))) send rc s))) \<subseteq>
      {long_message (parseFloat (or_zero lf)), short_message (parseFloat (or_zero sf))}"
    by (auto simp: sample_sent)
  show ?thesis using a b c d by (simp add: sample_fields)
qed

theorem failed_fetch_leaves_state_witness:
  "fst (checkLiquidations (Rejected (Some ''ETIMEDOUT'')) accepts_all 0 startup) = startup \<and>
   sent (snd (checkLiquidations (Rejected (Some ''ETIMEDOUT'')) accepts_all 0 startup)) = [] \<and>
   lastLongLiq (fst (checkLiquidations both_high accepts_all 0 startup)) \<noteq> lastLongLiq startup \<and>
   (\<exists>lf sf cs. both_high = Resolved (Some (Candle lf sf # cs)))"
  using failed_fetch_leaves_state [where code = "Some ''ETIMEDOUT''" and send = accepts_all
      and rc = 0 and s = startup and fetched = both_high and lf = "Str ''6000000''"
      and sf = "Str ''12000000''" and cs = "[]"]
  by (simp add: both_high_def parse_6000000 startup_fields)

text \<open>
  C7. A threshold field that parses to a number (anything but \<open>NaN\<close>) replaces its
  threshold; a polling interval that parses to a number above 0 becomes the polling
  period, times 1000, and the schedule is renewed; a field that is absent or does not
  parse, and an interval that is not above 0, change nothing of theirs; the answer is a
  redirect to \<open>/\<close>.
\<close>

theorem control_updates:
  "longThreshold (fst (set_params b s)) =
     (if parseFloat (b_longThreshold b) = NaN then longThreshold s
      else parseFloat (b_longThreshold b)) \<and>
   shortThreshold (fst (set_params b s)) =
     (if parseFloat (b_shortThreshold b) = NaN then shortThreshold s
      else parseFloat (b_shortThreshold b)) \<and>
   (parseFloat (b_pollInterval b) \<noteq> NaN \<and> js_gt (parseFloat (b_pollInterval b)) (Fin 0) \<longrightarrow>
      pollingIntervalMs (fst (set_params b s)) = js_mul (parseFloat (b_pollInterval b)) (Fin 1000) \<and>
      fst (set_params b s) = scheduleCheckLiquidations
        (s\<lparr>longThreshold := longThreshold (fst (set_params b s)),
           shortThreshold := shortThreshold (fst (set_params b s)),
           pollingIntervalMs := js_mul (parseFloat (b_pollInterval b)) (Fin 1000)\<rparr>)) \<and>
   (\<not> (parseFloat (b_pollInterval b) \<noteq> NaN \<and> js_gt (parseFloat (b_pollInterval b)) (Fin 0)) \<longrightarrow>
      fst (set_params b s) =
        s\<lparr>longThreshold := longThreshold (fst (set_params b s)),
          shortThreshold := shortThreshold (fst (set_params b s))\<rparr>) \<and>
   (b_longThreshold b = Undefined \<longrightarrow> longThreshold (fst (set_params b s)) = longThreshold s) \<and>
   (b_shortThreshold b = Undefined \<longrightarrow> shortThreshold (fst (set_params b s)) = shortThreshold s) \<and>
   (b_pollInterval b = Undefined \<longrightarrow>
      pollingIntervalMs (fst (set_params b s)) = pollingIntervalMs s \<and>
      intervalId (fst (set_params b s)) = intervalId s \<and>
      timers (fst (set_params b s)) = timers s) \<and>
   snd (set_params b s) = Redirect ''/''"
  by (auto simp: set_params_def Let_def isNaN_def schedule_frame parseFloat_Undefined js_gt_def)

theorem control_updates_witness:
  "longThreshold (fst (set_params faster startup)) = Fin 7000000 \<and>
   b_shortThreshold faster = Undefined \<and>
   shortThreshold (fst (set_params faster startup)) = shortThreshold startup \<and>
   parseFloat (b_pollInterval faster) \<noteq> NaN \<and>
   js_gt (parseFloat (b_pollInterval faster)) (Fin 0) \<and>
   pollingIntervalMs (fst (set_params faster startup)) = Fin 30000 \<and>
   timers (fst (set_params faster startup)) = [(1, Fin 30000)] \<and>
   \<not> js_gt (parseFloat (b_pollInterval no_numbers)) (Fin 0) \<and>
   fst (set_params no_numbers startup) = startup \<and>
   b_pollInterval lower_thresholds = Undefined \<and>
   timers (fst (set_params lower_thresholds startup)) = timers startup \<and>
   b_longThreshold interval_only = Undefined \<and>
   longThreshold (fst (set_params interval_only startup)) = longThreshold startup \<and>
   snd (set_params faster startup) = Redirect ''/''"
proof -
  have absent: "b_shortThreshold faster = Undefined" "b_pollInterval lower_thresholds = Undefined"
    "b_longThreshold interval_only = Undefined"
    by (simp_all add: faster_def lower_thresholds_def interval_only_def)
  from control_updates [of interval_only startup, THEN conjunct2, THEN conjunct2,
      THEN conjunct2, THEN conjunct2, THEN conjunct1] absent(3)
  have io: "longThreshold (fst (set_params interval_only startup)) = longThreshold startup"
    by (rule mp)
  have fields: "parseFloat (b_longThreshold faster) = Fin 7000000"
    "parseFloat (b_shortThreshold faster) = NaN"
    "parseFloat (b_pollInterval faster) = Fin 30"
    "parseFloat (b_longThreshold no_numbers) = NaN"
    "parseFloat (b_shortThreshold no_numbers) = NaN"
    "parseFloat (b_pollInterval no_numbers) = Fin 0"
    "parseFloat (b_pollInterval lower_thresholds) = NaN"
    by (simp_all add: faster_def no_numbers_def lower_thresholds_def parse_7000000 parse_30
        parse_abc parse_empty parse_0 parseFloat_Undefined)
  have pos: "js_gt (Fin 30) (Fin 0)" "\<not> js_gt (Fin 0) (Fin 0)"
    by (simp_all add: js_gt_def)
  note fast = control_updates [of faster startup]
  from fast have lt: "longThreshold (fst (set_params faster startup)) = Fin 7000000"
    and st: "shortThreshold (fst (set_params faster startup)) = shortThreshold startup"
    and pm: "pollingIntervalMs (fst (set_params faster startup)) = Fin 30000"
    and rd: "snd (set_params faster startup) = Redirect ''/''"
    by (simp_all add: fields pos ms_of_30)
  have sch: "fst (set_params faster startup) = scheduleCheckLiquidations
      (startup\<lparr>longThreshold := Fin 7000000, pollingIntervalMs := Fin 30000\<rparr>)"
    by (simp add: set_params_state fields pos ms_of_30 isNaN_def)
  have "tracked (startup\<lparr>longThreshold := Fin 7000000, pollingIntervalMs := Fin 30000\<rparr>)"
    by (simp add: tracked_def startup_fields)
  from schedule_timers [OF this]
  have tm: "timers (fst (set_params faster startup)) = [(1, Fin 30000)]"
    by (simp add: sch startup_fields)
  note none = control_updates [of no_numbers startup]
  have inv: "\<not> (parseFloat (b_pollInterval no_numbers) \<noteq> NaN \<and>
      js_gt (parseFloat (b_pollInterval no_numbers)) (Fin 0))"
    by (simp add: fields pos)
  from none have same: "longThreshold (fst (set_params no_numbers startup)) = longThreshold startup"
    "shortThreshold (fst (set_params no_numbers startup)) = shortThreshold startup"
    by (simp_all add: fields)
  from none inv have "fst (set_params no_numbers startup) =
      startup\<lparr>longThreshold := longThreshold (fst (set_params no_numbers startup)),
        shortThreshold := shortThreshold (fst (set_params no_numbers startup))\<rparr>"
    by blast
  then have "fst (set_params no_numbers startup) =
      startup\<lparr>longThreshold := longThreshold startup, shortThreshold := shortThreshold startup\<rparr>"
    by (simp only: same)
  then have nn: "fst (set_params no_numbers startup) = startup"
    by simp
  from control_updates [of lower_thresholds startup]
  have lo: "timers (fst (set_params lower_thresholds startup)) = timers startup"
    by (simp add: absent)
  show ?thesis
    using lt st pm rd tm nn lo io absent by (simp add: fields pos)
qed

text \<open>
  C8. In every state the process can reach there is exactly one interval timer, the one
  \<open>intervalId\<close> holds, and it runs at the current polling period. A call of
  \<open>scheduleCheckLiquidations\<close> removes the timer it finds and installs one at the
  current period; a second call leaves again one timer at that period; neither call
  changes the thresholds, the period, the samples or the last alerted values.
\<close>

theorem single_timer:
  "(reachable s \<longrightarrow> (\<exists>h. intervalId s = Some h \<and> timers s = [(h, pollingIntervalMs s)])) \<and>
   (tracked s \<longrightarrow>
      timers (scheduleCheckLiquidations s) = [(next_timer s, pollingIntervalMs s)] \<and>
      intervalId (scheduleCheckLiquidations s) = Some (next_timer s) \<and>
      map snd (timers (scheduleCheckLiquidations (scheduleCheckLiquidations s))) =
        map snd (timers (scheduleCheckLiquidations s)) \<and>
      length (timers (scheduleCheckLiquidations (scheduleCheckLiquidations s))) = 1) \<and>
   longThreshold (scheduleCheckLiquidations s) = longThreshold s \<and>
   shortThreshold (scheduleCheckLiquidations s) = shortThreshold s \<and>
   pollingIntervalMs (scheduleCheckLiquidations s) = pollingIntervalMs s \<and>
   lastLongLiq (scheduleCheckLiquidations s) = lastLongLiq s \<and>
   lastShortLiq (scheduleCheckLiquidations s) = lastShortLiq s \<and>
   lastLongAlertValue (scheduleCheckLiquidations s) = lastLongAlertValue s \<and>
   lastShortAlertValue (scheduleCheckLiquidations s) = lastShortAlertValue s"
proof -
  have a: "\<exists>h. intervalId s = Some h \<and> timers s = [(h, pollingIntervalMs s)]" if "reachable s"
    using reachable_on_schedule [OF that] by (simp add: on_schedule_def)
  have b: "timers (scheduleCheckLiquidations s) = [(next_timer s, pollingIntervalMs s)] \<and>
      intervalId (scheduleCheckLiquidations s) = Some (next_timer s)" if "tracked s"
    using schedule_timers [OF that] by simp
  have c: "map snd (timers (scheduleCheckLiquidations (scheduleCheckLiquidations s))) =
        map snd (timers (scheduleCheckLiquidations s)) \<and>
      length (timers (scheduleCheckLiquidations (scheduleCheckLiquidations s))) = 1"
    if "tracked s"
    using schedule_timers [OF tracked_schedule [OF that]] b [OF that]
    by (simp add: schedule_frame)
  show ?thesis using a b c by (simp add: schedule_frame)
qed

theorem single_timer_witness:
  "reachable startup \<and> tracked startup \<and>
   intervalId startup = Some 0 \<and> timers startup = [(0, Fin 60000)] \<and>
   timers (scheduleCheckLiquidations startup) = [(1, Fin 60000)] \<and>
   intervalId (scheduleCheckLiquidations startup) = Some 1 \<and>
   length (timers (scheduleCheckLiquidations (scheduleCheckLiquidations startup))) = 1"
proof -
  have r: "reachable startup" by (rule reachable.start)
  have t: "tracked startup" by (simp add: tracked_def startup_fields)
  show ?thesis using r t single_timer [of startup] by (simp add: startup_fields)
qed

text \<open>
  C9. A response without a data array, or with an empty one, changes nothing: the state
  stays, nothing is sent, no retry is scheduled.
\<close>

theorem empty_response_is_noop:
  "checkLiquidations (Resolved None) send rc s = (s, \<lparr>sent = [], retry = None\<rparr>) \<and>
   checkLiquidations (Resolved (Some [])) send rc s = (s, \<lparr>sent = [], retry = None\<rparr>)"
  by (simp add: checkLiquidations_def)

theorem empty_response_is_noop_witness:
  "checkLiquidations (Resolved None) accepts_all 0 startup =
     (startup, \<lparr>sent = [], retry = None\<rparr>) \<and>
   checkLiquidations (Resolved (Some [])) accepts_all 0 startup =
     (startup, \<lparr>sent = [], retry = None\<rparr>)"
  using empty_response_is_noop [of accepts_all 0 startup] by simp

text \<open>
  C10. A request to the control endpoint changes neither the two sample variables nor
  the two last alerted values, whatever its body. So a value that was alerted stays
  suppressed after the thresholds are changed: the next run with that value sends no
  alert for that side.
\<close>

theorem control_keeps_samples_and_memory:
  "lastLongLiq (fst (set_params b s)) = lastLongLiq s \<and>
   lastShortLiq (fst (set_params b s)) = lastShortLiq s \<and>
   lastLongAlertValue (fst (set_params b s)) = lastLongAlertValue s \<and>
   lastShortAlertValue (fst (set_params b s)) = lastShortAlertValue s \<and>
   (lastLongAlertValue s = Some (parseFloat (or_zero lf)) \<longrightarrow>
      long_message (parseFloat (or_zero lf)) \<notin>
        set (sent (snd (checkLiquidations (Resolved (Some (Candle lf sf # cs))) send rc
          (fst (set_params b s)))))) \<and>
   (lastShortAlertValue s = Some (parseFloat (or_zero sf)) \<longrightarrow>
      short_message (parseFloat (or_zero sf)) \<notin>
        set (sent (snd (checkLiquidations (Resolved (Some (Candle lf sf # cs))) send rc
          (fst (set_params b s))))))"
  using long_short_distinct [of "parseFloat (or_zero lf)" "parseFloat (or_zero sf)"]
  by (auto simp: set_params_frame sample_sent)

theorem control_keeps_samples_and_memory_witness:
  "lastLongAlertValue alerted = Some (Fin 6000000) \<and>
   lastShortAlertValue alerted = Some (Fin 12000000) \<and>
   longThreshold (fst (set_params lower_thresholds alerted)) = Fin 1000 \<and>
   shortThreshold (fst (set_params lower_thresholds alerted)) = Fin 1000 \<and>
   lastLongAlertValue (fst (set_params lower_thresholds alerted)) = Some (Fin 6000000) \<and>
   lastShortAlertValue (fst (set_params lower_thresholds alerted)) = Some (Fin 12000000) \<and>
   long_message (Fin 6000000) \<notin>
     set (sent (snd (checkLiquidations both_high accepts_all 0
       (fst (set_params lower_thresholds alerted))))) \<and>
   short_message (Fin 12000000) \<notin>
     set (sent (snd (checkLiquidations both_high accepts_all 0
       (fst (set_params lower_thresholds alerted)))))"
proof -
  have thr: "longThreshold (fst (set_params lower_thresholds alerted)) = Fin 1000"
    "shortThreshold (fst (set_params lower_thresholds alerted)) = Fin 1000"
    by (simp_all add: set_params_state lower_thresholds_def parse_1000 parseFloat_Undefined
        isNaN_def)
  show ?thesis
    using thr control_keeps_samples_and_memory [where b = lower_thresholds and s = alerted
        and lf = "Str ''6000000''" and sf = "Str ''12000000''" and cs = "[]"
        and send = accepts_all and rc = 0]
    by (simp add: both_high_def [symmetric] alerted_memory parse_6000000 parse_12000000)
qed

section \<open>Further properties\<close>

text \<open>
  A response whose first element is \<open>null\<close> changes nothing: the TypeError of the
  field access is caught, it has no code, and nothing was assigned before it.
\<close>

lemma null_first_element_is_noop:
  "checkLiquidations (Resolved (Some (JNull # cs))) send rc s =
     (s, \<lparr>sent = [], retry = None\<rparr>)"
  by (simp add: checkLiquidations_def on_error_def)

text \<open>
  \<open>parseFloat\<close> reads a numeric prefix: a threshold field \<open>12abc\<close> sets the
  threshold to 12.
\<close>

lemma numeric_prefix_is_accepted:
  "longThreshold (fst (set_params
     \<lparr> b_longThreshold = Str ''12abc'', b_shortThreshold = Undefined,
       b_pollInterval = Undefined \<rparr> s)) = Fin 12"
proof -
  have "parseFloat (Str ''12abc'') = Fin 12"
    by (simp add: parse_eval)
  then show ?thesis
    by (simp add: set_params_state isNaN_def parseFloat_Undefined)
qed

text \<open>
  \<open>Infinity\<close> is a number above 0 for the control endpoint: a polling interval of
  \<open>Infinity\<close> becomes the polling period, and the timer is installed with it.
\<close>

lemma infinite_interval_is_accepted:
  "pollingIntervalMs (fst (set_params
     \<lparr> b_longThreshold = Undefined, b_shortThreshold = Undefined,
       b_pollInterval = Str ''Infinity'' \<rparr> startup)) = PosInf \<and>
   timers (fst (set_params
     \<lparr> b_longThreshold = Undefined, b_shortThreshold = Undefined,
       b_pollInterval = Str ''Infinity'' \<rparr> startup)) = [(1, PosInf)]"
proof -
  have p: "parseFloat (Str ''Infinity'') = PosInf"
    by (simp add: parse_eval)
  have m: "js_mul PosInf (Fin 1000) = PosInf"
    by (simp add: js_mul_def)
  have g: "js_gt PosInf (Fin 0)"
    by (simp add: js_gt_def)
  have sch: "fst (set_params
      \<lparr> b_longThreshold = Undefined, b_shortThreshold = Undefined,
        b_pollInterval = Str ''Infinity'' \<rparr> startup) =
      scheduleCheckLiquidations (startup\<lparr>pollingIntervalMs := PosInf\<rparr>)"
    by (simp add: set_params_state isNaN_def parseFloat_Undefined p m g)
  have "tracked (startup\<lparr>pollingIntervalMs := PosInf\<rparr>)"
    by (simp add: tracked_def startup_fields)
  from schedule_timers [OF this] show ?thesis
    by (simp add: sch schedule_frame startup_fields)
qed

text \<open>
  White space of more than one byte in front of a number is skipped, as the language
  has it: a no-break space, and a line separator followed by a space.
\<close>

lemma wide_white_space_is_skipped:
  "parseFloat (Str ([CHR 0xC2, CHR 0xA0] @ ''12'')) = Fin 12 \<and>
   parseFloat (Str ([CHR 0xE2, CHR 0x80, CHR 0xA8, CHR 0x20] @ ''12'')) = Fin 12"
  by (simp add: parse_eval)

end
